theory Spec2Isabelle
  imports Main "HOL-Library.Sublist"
begin

section \<open>Values, exceptions and Python primitives\<close>

text \<open>
  The handlers of the repository receive and produce JSON-like Python values
  (\<^verbatim>\<open>Dict[str, Any]\<close>). A dictionary is an association list read with
  \<^const>\<open>map_of\<close>; a character of a string stands for one code point.
\<close>

datatype json =
    JNull
  | JBool bool
  | JNum int
  | JStr string
  | JArr "json list"
  | JObj "(string \<times> json) list"

text \<open>
  The exceptions the handlers can see. \<open>ServiceError\<close> stands for whatever a
  client of an external service raises (botocore's ClientError, a requests
  exception, a key that cannot be loaded).
\<close>

datatype exn =
    KeyError string
  | TypeError
  | AttributeError
  | ValueError string
  | JSONDecodeError
  | ExpiredSignatureError
  | InvalidTokenError string
  | ServiceError

subsection \<open>Python operations on JSON values\<close>

text \<open>\<^verbatim>\<open>x[k]\<close> for a string key: only a dict can be subscripted by a string.\<close>

fun getitem :: "json \<Rightarrow> string \<Rightarrow> exn + json" where
  "getitem (JObj kvs) k = (case map_of kvs k of None \<Rightarrow> Inl (KeyError k) | Some v \<Rightarrow> Inr v)"
| "getitem _ k = Inl TypeError"

text \<open>\<^verbatim>\<open>x.get(k, d)\<close>: only a dict has the method.\<close>

fun dict_get :: "json \<Rightarrow> string \<Rightarrow> json \<Rightarrow> exn + json" where
  "dict_get (JObj kvs) k d = Inr (case map_of kvs k of None \<Rightarrow> d | Some v \<Rightarrow> v)"
| "dict_get _ k d = Inl AttributeError"

text \<open>\<^verbatim>\<open>pat in s\<close> on two strings: \<open>pat\<close> occurs in \<open>s\<close>.\<close>

fun substring :: "string \<Rightarrow> string \<Rightarrow> bool" where
  "substring pat [] = (pat = [])"
| "substring pat (c # cs) = (prefix pat (c # cs) \<or> substring pat cs)"

text \<open>
  \<^verbatim>\<open>k in x\<close> for a string \<open>k\<close>: a key of a dict, an element of a list, a
  substring of a string; anything else is not iterable.
\<close>

fun contains :: "string \<Rightarrow> json \<Rightarrow> exn + bool" where
  "contains k (JObj kvs) = Inr (map_of kvs k \<noteq> None)"
| "contains k (JArr xs) = Inr (JStr k \<in> set xs)"
| "contains k (JStr s) = Inr (substring k s)"
| "contains k _ = Inl TypeError"

text \<open>Truthiness, as \<^verbatim>\<open>not x\<close> and \<^verbatim>\<open>if x:\<close> read it.\<close>

fun truthy :: "json \<Rightarrow> bool" where
  "truthy JNull = False"
| "truthy (JBool b) = b"
| "truthy (JNum n) = (n \<noteq> 0)"
| "truthy (JStr s) = (s \<noteq> [])"
| "truthy (JArr xs) = (xs \<noteq> [])"
| "truthy (JObj kvs) = (kvs \<noteq> [])"

text \<open>\<^verbatim>\<open>len(x)\<close>; a dict counts its distinct keys.\<close>

fun py_len :: "json \<Rightarrow> exn + nat" where
  "py_len (JStr s) = Inr (length s)"
| "py_len (JArr xs) = Inr (length xs)"
| "py_len (JObj kvs) = Inr (length (remdups (map fst kvs)))"
| "py_len _ = Inl TypeError"

text \<open>\<^verbatim>\<open>for x in v\<close>: the elements of a list, the keys of a dict, the characters of a string.\<close>

fun py_iter :: "json \<Rightarrow> exn + json list" where
  "py_iter (JArr xs) = Inr xs"
| "py_iter (JObj kvs) = Inr (map JStr (remdups (map fst kvs)))"
| "py_iter (JStr s) = Inr (map (\<lambda>c. JStr [c]) s)"
| "py_iter _ = Inl TypeError"

text \<open>\<^verbatim>\<open>s.join(xs)\<close> on strings.\<close>

fun join :: "string \<Rightarrow> string list \<Rightarrow> string" where
  "join sep [] = []"
| "join sep [x] = x"
| "join sep (x # y # ys) = x @ sep @ join sep (y # ys)"

text \<open>The \<^verbatim>\<open>repr\<close> of a plain key, as \<^verbatim>\<open>str(KeyError(k))\<close> prints it.\<close>

definition quoted :: "string \<Rightarrow> string" where
  "quoted k = [CHR 0x27] @ k @ [CHR 0x27]"

section \<open>services/common/utils.py\<close>

subsection \<open>check_user_permissions\<close>

text \<open>
  \<^verbatim>\<open>
  def check_user_permissions(user_role, action, resource_owner=None, current_user=None):
      if user_role == 'ADMIN':
          return True
      if user_role == 'MEMBER':
          if action in ['create', 'read']:
              return True
          elif action in ['update'] and resource_owner == current_user:
              return True
          elif action == 'delete':
              return False
      return False
  \<close>
  The two optional arguments are \<^verbatim>\<open>Optional[str]\<close>: \<open>None\<close> is Python's None,
  the default of both.
\<close>

definition check_user_permissions ::
  "string \<Rightarrow> string \<Rightarrow> string option \<Rightarrow> string option \<Rightarrow> bool" where
  "check_user_permissions user_role action resource_owner current_user =
     (if user_role = ''ADMIN'' then True
      else if user_role = ''MEMBER'' then
        (if action \<in> set [''create'', ''read''] then True
         else if action \<in> set [''update''] \<and> resource_owner = current_user then True
         else if action = ''delete'' then False
         else False)
      else False)"

subsection \<open>validate_required_fields, validate_task_data\<close>

text \<open>
  \<^verbatim>\<open>
  for field in required_fields:
      if field not in data or data[field] is None or data[field] == '':
          missing_fields.append(field)
  \<close>
\<close>

fun missing_fields :: "json \<Rightarrow> string list \<Rightarrow> exn + string list" where
  "missing_fields data [] = Inr []"
| "missing_fields data (field # fields) =
     (case contains field data of
        Inl e \<Rightarrow> Inl e
      | Inr present \<Rightarrow>
          (case (if present
                 then (case getitem data field of
                         Inl e \<Rightarrow> Inl e
                       | Inr v \<Rightarrow> Inr (v = JNull \<or> v = JStr []))
                 else Inr True) of
             Inl e \<Rightarrow> Inl e
           | Inr missing \<Rightarrow>
               (case missing_fields data fields of
                  Inl e \<Rightarrow> Inl e
                | Inr rest \<Rightarrow> Inr (if missing then field # rest else rest))))"

definition validate_required_fields :: "json \<Rightarrow> string list \<Rightarrow> exn + string option" where
  "validate_required_fields data required_fields =
     (case missing_fields data required_fields of
        Inl e \<Rightarrow> Inl e
      | Inr missing \<Rightarrow>
          Inr (if missing \<noteq> []
               then Some (''Missing required fields: '' @ join '', '' missing)
               else None))"

definition valid_statuses :: "string list" where
  "valid_statuses = [''OPEN'', ''IN_PROGRESS'', ''DONE'', ''CANCELLED'']"

definition valid_priorities :: "string list" where
  "valid_priorities = [''LOW'', ''MEDIUM'', ''HIGH'', ''URGENT'']"

text \<open>
  \<^verbatim>\<open>validate_task_data(task_data)\<close> returns an error message, or None when the
  data is valid. No handler of the repository calls it.
\<close>

definition validate_task_data :: "json \<Rightarrow> exn + string option" where
  "validate_task_data task_data =
     (case validate_required_fields task_data [''title''] of
        Inl e \<Rightarrow> Inl e
      | Inr (Some validation_error) \<Rightarrow> Inr (Some validation_error)
      | Inr None \<Rightarrow>
     (case dict_get task_data ''title'' (JStr []) of
        Inl e \<Rightarrow> Inl e
      | Inr title \<Rightarrow>
     (case py_len title of
        Inl e \<Rightarrow> Inl e
      | Inr title_len \<Rightarrow>
     if title_len > 200 then Inr (Some ''Title cannot exceed 200 characters'')
     else
     (case dict_get task_data ''description'' (JStr []) of
        Inl e \<Rightarrow> Inl e
      | Inr description \<Rightarrow>
     (case py_len description of
        Inl e \<Rightarrow> Inl e
      | Inr description_len \<Rightarrow>
     if description_len > 1000 then Inr (Some ''Description cannot exceed 1000 characters'')
     else
     (case dict_get task_data ''status'' (JStr ''OPEN'') of
        Inl e \<Rightarrow> Inl e
      | Inr status \<Rightarrow>
     if status \<notin> JStr ` set valid_statuses
     then Inr (Some (''Status must be one of: '' @ join '', '' valid_statuses))
     else
     (case dict_get task_data ''priority'' (JStr ''MEDIUM'') of
        Inl e \<Rightarrow> Inl e
      | Inr priority \<Rightarrow>
     if priority \<notin> JStr ` set valid_priorities
     then Inr (Some (''Priority must be one of: '' @ join '', '' valid_priorities))
     else Inr None)))))))"

section \<open>The runtime and the external services\<close>

text \<open>
  The Record Store (a DynamoDB table), the event bus (EventBridge) and the
  archive (an S3 bucket) are external; the handlers reach them through boto3.
  They are modelled by their contract: an item is a map from attribute names
  to values, the table maps a primary key (PK, SK) to an item. Every call is
  recorded in a trace, in order, with its arguments, whether it succeeds or
  raises.
\<close>

type_synonym item = "string \<rightharpoonup> json"
type_synonym pkey = "string \<times> string"

datatype access =
    GetItem pkey
  | PutItem item
  | UpdateItem pkey "(string \<times> string) list" "string \<rightharpoonup> json"
  | DeleteItem pkey
  | PutEvents json
  | PutObject json string item

record world =
  table :: "pkey \<rightharpoonup> item"
  bus :: "json list"
  archive :: "string \<rightharpoonup> item"
  trace :: "access list"
  ticks :: nat

text \<open>
  What an invocation takes from outside the repository: the clock
  (\<open>clock rt n\<close> is the n-th reading of \<^verbatim>\<open>datetime.utcnow().isoformat()\<close>), the
  identifier \<^verbatim>\<open>uuid.uuid4()\<close> returns, Python's \<^verbatim>\<open>repr\<close> of a value that is
  not a string, the message of an exception, \<^verbatim>\<open>json.loads\<close> (None for text that is
  not JSON), the environment variables, and which service calls raise.
\<close>

record runtime =
  clock :: "nat \<Rightarrow> string"
  uuid4 :: string
  repr :: "json \<Rightarrow> string"
  message :: "exn \<Rightarrow> string"
  loads :: "string \<Rightarrow> json option"
  event_bus_name :: json
  s3_bucket_name :: json
  raises :: "access \<Rightarrow> bool"

text \<open>A value inside an f-string: a string stands for itself, anything else by its repr.\<close>

definition py_format :: "runtime \<Rightarrow> json \<Rightarrow> string" where
  "py_format rt v = (case v of JStr s \<Rightarrow> s | _ \<Rightarrow> repr rt v)"

text \<open>\<^verbatim>\<open>str(e)\<close> of a caught exception.\<close>

definition str_exn :: "runtime \<Rightarrow> exn \<Rightarrow> string" where
  "str_exn rt e = (case e of KeyError k \<Rightarrow> quoted k | _ \<Rightarrow> message rt e)"

text \<open>\<^verbatim>\<open>json.loads(x)\<close>: text is parsed, anything else is a TypeError.\<close>

definition json_loads :: "runtime \<Rightarrow> json \<Rightarrow> exn + json" where
  "json_loads rt x =
     (case x of
        JStr s \<Rightarrow> (case loads rt s of None \<Rightarrow> Inl JSONDecodeError | Some v \<Rightarrow> Inr v)
      | _ \<Rightarrow> Inl TypeError)"

subsection \<open>Statements that may raise and that change the world\<close>

type_synonym 'a prog = "world \<Rightarrow> (exn + 'a) \<times> world"

definition ret :: "'a \<Rightarrow> 'a prog" where
  "ret x = (\<lambda>w. (Inr x, w))"

definition lift :: "exn + 'a \<Rightarrow> 'a prog" where
  "lift r = (\<lambda>w. (r, w))"

text \<open>\<open>thn m f\<close>: run \<open>m\<close>; when it raises, so does the whole; otherwise go on with \<open>f\<close>.\<close>

definition thn :: "'a prog \<Rightarrow> ('a \<Rightarrow> 'b prog) \<Rightarrow> 'b prog" where
  "thn m f = (\<lambda>w. case m w of (Inl e, w') \<Rightarrow> (Inl e, w') | (Inr x, w') \<Rightarrow> f x w')"

definition utcnow :: "runtime \<Rightarrow> string prog" where
  "utcnow rt = (\<lambda>w. (Inr (clock rt (ticks w)), w\<lparr>ticks := Suc (ticks w)\<rparr>))"

text \<open>A service call: traced, then it raises or takes effect.\<close>

definition call :: "runtime \<Rightarrow> access \<Rightarrow> (world \<Rightarrow> 'a \<times> world) \<Rightarrow> 'a prog" where
  "call rt a effect =
     (\<lambda>w. let w1 = w\<lparr>trace := trace w @ [a]\<rparr>
          in if raises rt a then (Inl ServiceError, w1)
             else (case effect w1 of (x, w2) \<Rightarrow> (Inr x, w2)))"

text \<open>\<^verbatim>\<open>table.get_item(Key=...)\<close>: the item under the key, if there is one.\<close>

definition get_item :: "runtime \<Rightarrow> pkey \<Rightarrow> item option prog" where
  "get_item rt k = call rt (GetItem k) (\<lambda>w. (table w k, w))"

text \<open>
  \<^verbatim>\<open>table.put_item(Item=...)\<close>: the item replaces whatever its key held. The
  store refuses an item whose PK or SK is not a string.
\<close>

definition put_item :: "runtime \<Rightarrow> item \<Rightarrow> unit prog" where
  "put_item rt it =
     (case (it ''PK'', it ''SK'') of
        (Some (JStr pk), Some (JStr sk)) \<Rightarrow>
          call rt (PutItem it) (\<lambda>w. ((), w\<lparr>table := (table w)((pk, sk) \<mapsto> it)\<rparr>))
      | _ \<Rightarrow> (\<lambda>w. (Inl ServiceError, w\<lparr>trace := trace w @ [PutItem it]\<rparr>)))"

text \<open>
  \<^verbatim>\<open>table.update_item(Key, UpdateExpression, ExpressionAttributeValues,
  ReturnValues='ALL_NEW')\<close> with a SET expression: each clause \<open>(a, p)\<close> of
  \<^verbatim>\<open>SET a = p, ...\<close> gives attribute \<open>a\<close> the value of placeholder \<open>p\<close>, on
  the item under the key (on an item holding only the key when there is
  none); all clauses are applied in one write, and the new item is returned.

  Modelled from the documentation of the service: an expression that names an
  attribute by one of DynamoDB's reserved words is refused with a
  ValidationException, and nothing is written, unless the name is given
  through \<^verbatim>\<open>ExpressionAttributeNames\<close>; the words are compared without regard
  to case. The handler of this repository passes no
  \<^verbatim>\<open>ExpressionAttributeNames\<close>, so every attribute of a clause is named
  directly.
\<close>

definition reserved_words :: "string list" where
  "reserved_words =
    [''abort'', ''absolute'', ''action'', ''add'', ''after'', ''agent'', ''aggregate'',
     ''all'', ''allocate'', ''alter'', ''analyze'', ''and'', ''any'', ''archive'', ''are'',
     ''array'', ''as'', ''asc'', ''ascii'', ''asensitive'', ''assertion'', ''asymmetric'',
     ''at'', ''atomic'', ''attach'', ''attribute'', ''auth'', ''authorization'',
     ''authorize'', ''auto'', ''avg'', ''back'', ''backup'', ''base'', ''batch'',
     ''before'', ''begin'', ''between'', ''bigint'', ''binary'', ''bit'', ''blob'',
     ''block'', ''boolean'', ''both'', ''breadth'', ''bucket'', ''bulk'', ''by'', ''byte'',
     ''call'', ''called'', ''calling'', ''capacity'', ''cascade'', ''cascaded'', ''case'',
     ''cast'', ''catalog'', ''char'', ''character'', ''check'', ''class'', ''clob'',
     ''close'', ''cluster'', ''clustered'', ''clustering'', ''clusters'', ''coalesce'',
     ''collate'', ''collation'', ''collection'', ''column'', ''columns'', ''combine'',
     ''comment'', ''commit'', ''compact'', ''compile'', ''compress'', ''condition'',
     ''conflict'', ''connect'', ''connection'', ''consistency'', ''consistent'',
     ''constraint'', ''constraints'', ''constructor'', ''consumed'', ''continue'',
     ''convert'', ''copy'', ''corresponding'', ''count'', ''counter'', ''create'',
     ''cross'', ''cube'', ''current'', ''cursor'', ''cycle'', ''data'', ''database'',
     ''date'', ''datetime'', ''day'', ''deallocate'', ''dec'', ''decimal'', ''declare'',
     ''default'', ''deferrable'', ''deferred'', ''define'', ''defined'', ''definition'',
     ''delete'', ''delimited'', ''depth'', ''deref'', ''desc'', ''describe'',
     ''descriptor'', ''detach'', ''deterministic'', ''diagnostics'', ''directories'',
     ''disable'', ''disconnect'', ''distinct'', ''distribute'', ''do'', ''domain'',
     ''double'', ''drop'', ''dump'', ''duration'', ''dynamic'', ''each'', ''element'',
     ''else'', ''elseif'', ''empty'', ''enable'', ''end'', ''equal'', ''equals'',
     ''error'', ''escape'', ''escaped'', ''eval'', ''evaluate'', ''exceeded'', ''except'',
     ''exception'', ''exceptions'', ''exclusive'', ''exec'', ''execute'', ''exists'',
     ''exit'', ''explain'', ''explode'', ''export'', ''expression'', ''extended'',
     ''external'', ''extract'', ''fail'', ''false'', ''family'', ''fetch'', ''fields'',
     ''file'', ''filter'', ''filtering'', ''final'', ''finish'', ''first'', ''fixed'',
     ''flattern'', ''float'', ''for'', ''force'', ''foreign'', ''format'', ''forward'',
     ''found'', ''free'', ''from'', ''full'', ''function'', ''functions'', ''general'',
     ''generate'', ''get'', ''glob'', ''global'', ''go'', ''goto'', ''grant'', ''greater'',
     ''group'', ''grouping'', ''handler'', ''hash'', ''have'', ''having'', ''heap'',
     ''hidden'', ''hold'', ''hour'', ''identified'', ''identity'', ''if'', ''ignore'',
     ''immediate'', ''import'', ''in'', ''including'', ''inclusive'', ''increment'',
     ''incremental'', ''index'', ''indexed'', ''indexes'', ''indicator'', ''infinite'',
     ''initially'', ''inline'', ''inner'', ''innter'', ''inout'', ''input'',
     ''insensitive'', ''insert'', ''instead'', ''int'', ''integer'', ''intersect'',
     ''interval'', ''into'', ''invalidate'', ''is'', ''isolation'', ''item'', ''items'',
     ''iterate'', ''join'', ''key'', ''keys'', ''lag'', ''language'', ''large'', ''last'',
     ''later'', ''lateral'', ''lead'', ''leading'', ''leave'', ''left'', ''length'',
     ''less'', ''level'', ''like'', ''limit'', ''limited'', ''lines'', ''list'', ''load'',
     ''local'', ''localtime'', ''localtimestamp'', ''location'', ''locator'', ''lock'',
     ''locks'', ''log'', ''loged'', ''long'', ''loop'', ''lower'', ''map'', ''match'',
     ''materialized'', ''max'', ''maxlen'', ''member'', ''merge'', ''method'', ''metrics'',
     ''min'', ''minus'', ''minute'', ''missing'', ''mod'', ''mode'', ''modifies'',
     ''modify'', ''module'', ''month'', ''multi'', ''multiset'', ''name'', ''names'',
     ''national'', ''natural'', ''nchar'', ''nclob'', ''new'', ''next'', ''no'', ''none'',
     ''not'', ''null'', ''nullif'', ''number'', ''numeric'', ''object'', ''of'',
     ''offline'', ''offset'', ''old'', ''on'', ''online'', ''only'', ''opaque'', ''open'',
     ''operator'', ''option'', ''or'', ''order'', ''ordinality'', ''other'', ''others'',
     ''out'', ''outer'', ''output'', ''over'', ''overlaps'', ''override'', ''owner'',
     ''pad'', ''parallel'', ''parameter'', ''parameters'', ''partial'', ''partition'',
     ''partitioned'', ''partitions'', ''path'', ''percent'', ''percentile'',
     ''permission'', ''permissions'', ''pipe'', ''pipelined'', ''plan'', ''pool'',
     ''position'', ''precision'', ''prepare'', ''preserve'', ''primary'', ''prior'',
     ''private'', ''privileges'', ''procedure'', ''processed'', ''project'',
     ''projection'', ''property'', ''provisioning'', ''public'', ''put'', ''query'',
     ''quit'', ''quorum'', ''raise'', ''random'', ''range'', ''rank'', ''raw'', ''read'',
     ''reads'', ''real'', ''rebuild'', ''record'', ''recursive'', ''reduce'', ''ref'',
     ''reference'', ''references'', ''referencing'', ''regexp'', ''region'', ''reindex'',
     ''relative'', ''release'', ''remainder'', ''rename'', ''repeat'', ''replace'',
     ''request'', ''reset'', ''resignal'', ''resource'', ''response'', ''restore'',
     ''restrict'', ''result'', ''return'', ''returning'', ''returns'', ''reverse'',
     ''revoke'', ''right'', ''role'', ''roles'', ''rollback'', ''rollup'', ''routine'',
     ''row'', ''rows'', ''rule'', ''rules'', ''sample'', ''satisfies'', ''save'',
     ''savepoint'', ''scan'', ''schema'', ''scope'', ''scroll'', ''search'', ''second'',
     ''section'', ''segment'', ''segments'', ''select'', ''self'', ''semi'', ''sensitive'',
     ''separate'', ''sequence'', ''serializable'', ''session'', ''set'', ''sets'',
     ''shard'', ''share'', ''shared'', ''short'', ''show'', ''signal'', ''similar'',
     ''size'', ''skewed'', ''smallint'', ''snapshot'', ''some'', ''source'', ''space'',
     ''spaces'', ''sparse'', ''specific'', ''specifictype'', ''split'', ''sql'',
     ''sqlcode'', ''sqlerror'', ''sqlexception'', ''sqlstate'', ''sqlwarning'', ''start'',
     ''state'', ''static'', ''statistics'', ''status'', ''store'', ''stored'', ''stream'',
     ''string'', ''struct'', ''style'', ''sub'', ''submultiset'', ''subpartition'',
     ''substring'', ''subtype'', ''sum'', ''super'', ''symmetric'', ''synonym'',
     ''system'', ''table'', ''tablesample'', ''temp'', ''temporary'', ''terminated'',
     ''text'', ''than'', ''then'', ''throughput'', ''time'', ''timestamp'', ''timezone'',
     ''tinyint'', ''to'', ''token'', ''total'', ''touch'', ''trailing'', ''transaction'',
     ''transform'', ''translate'', ''translation'', ''treat'', ''trigger'', ''trim'',
     ''true'', ''truncate'', ''ttl'', ''tuple'', ''type'', ''under'', ''undo'', ''union'',
     ''unique'', ''unit'', ''unknown'', ''unlogged'', ''unnest'', ''unprocessed'',
     ''unsigned'', ''until'', ''update'', ''upper'', ''url'', ''usage'', ''use'', ''user'',
     ''users'', ''using'', ''uuid'', ''vacuum'', ''value'', ''valued'', ''values'',
     ''varchar'', ''variable'', ''variance'', ''varint'', ''varying'', ''view'', ''views'',
     ''virtual'', ''void'', ''wait'', ''when'', ''whenever'', ''where'', ''while'',
     ''window'', ''with'', ''within'', ''without'', ''work'', ''wrapped'', ''write'',
     ''year'', ''zone'']"

definition lower_case :: "char \<Rightarrow> char" where
  "lower_case c =
     (case map_of (zip ''ABCDEFGHIJKLMNOPQRSTUVWXYZ'' ''abcdefghijklmnopqrstuvwxyz'') c of
        None \<Rightarrow> c
      | Some l \<Rightarrow> l)"

definition reserved :: "string \<Rightarrow> bool" where
  "reserved a = (map lower_case a \<in> set reserved_words)"

fun apply_set :: "(string \<times> string) list \<Rightarrow> (string \<rightharpoonup> json) \<Rightarrow> item \<Rightarrow> item" where
  "apply_set [] vals it = it"
| "apply_set ((a, p) # clauses) vals it = apply_set clauses vals (it(a := vals p))"

definition update_item ::
  "runtime \<Rightarrow> pkey \<Rightarrow> (string \<times> string) list \<Rightarrow> (string \<rightharpoonup> json) \<Rightarrow> item prog" where
  "update_item rt k clauses vals =
     (if list_all (\<lambda>(a, p). vals p \<noteq> None) clauses
          \<and> list_all (\<lambda>(a, p). \<not> reserved a) clauses
      then call rt (UpdateItem k clauses vals)
             (\<lambda>w. let old = (case table w k of
                               None \<Rightarrow> [''PK'' \<mapsto> JStr (fst k), ''SK'' \<mapsto> JStr (snd k)]
                             | Some it \<Rightarrow> it);
                       new = apply_set clauses vals old
                   in (new, w\<lparr>table := (table w)(k \<mapsto> new)\<rparr>))
      else (\<lambda>w. (Inl ServiceError, w\<lparr>trace := trace w @ [UpdateItem k clauses vals]\<rparr>)))"

text \<open>\<^verbatim>\<open>table.delete_item(Key=...)\<close>.\<close>

definition delete_item :: "runtime \<Rightarrow> pkey \<Rightarrow> unit prog" where
  "delete_item rt k = call rt (DeleteItem k) (\<lambda>w. ((), w\<lparr>table := (table w)(k := None)\<rparr>))"

text \<open>\<^verbatim>\<open>eventbridge.put_events(Entries=[entry])\<close>.\<close>

definition put_events :: "runtime \<Rightarrow> json \<Rightarrow> unit prog" where
  "put_events rt entry = call rt (PutEvents entry) (\<lambda>w. ((), w\<lparr>bus := bus w @ [entry]\<rparr>))"

text \<open>\<^verbatim>\<open>s3.put_object(Bucket, Key, Body, ...)\<close>.\<close>

definition put_object :: "runtime \<Rightarrow> json \<Rightarrow> string \<Rightarrow> item \<Rightarrow> unit prog" where
  "put_object rt bucket k obj =
     call rt (PutObject bucket k obj) (\<lambda>w. ((), w\<lparr>archive := (archive w)(k \<mapsto> obj)\<rparr>))"

text \<open>\<^verbatim>\<open>item.get(k, d)\<close> and \<^verbatim>\<open>item[k]\<close> on an item read from the table.\<close>

definition item_get :: "item \<Rightarrow> string \<Rightarrow> json \<Rightarrow> json" where
  "item_get it k d = (case it k of None \<Rightarrow> d | Some v \<Rightarrow> v)"

definition item_getitem :: "item \<Rightarrow> string \<Rightarrow> exn + json" where
  "item_getitem it k = (case it k of None \<Rightarrow> Inl (KeyError k) | Some v \<Rightarrow> Inr v)"

section \<open>The task handlers\<close>

text \<open>
  A handler returns the response dict \<^verbatim>\<open>{'statusCode', 'headers', 'body'}\<close>; the
  body is kept as the object \<^verbatim>\<open>json.dumps\<close> is given. Logging is left out: it
  changes neither the response nor the services.
\<close>

definition response :: "int \<Rightarrow> (string \<times> json) list \<Rightarrow> json \<Rightarrow> json" where
  "response status_code headers body_obj =
     JObj [(''statusCode'', JNum status_code), (''headers'', JObj headers), (''body'', body_obj)]"

definition json_headers :: "(string \<times> json) list" where
  "json_headers = [(''Content-Type'', JStr ''application/json'')]"

definition cors_headers :: "(string \<times> json) list" where
  "cors_headers = [(''Content-Type'', JStr ''application/json''),
                   (''Access-Control-Allow-Origin'', JStr ''*'')]"

definition error_response :: "int \<Rightarrow> string \<Rightarrow> string \<Rightarrow> json" where
  "error_response status_code err msg =
     response status_code json_headers (JObj [(''error'', JStr err), (''message'', JStr msg)])"

text \<open>The keys of a task: \<^verbatim>\<open>{'PK': f'TENANT#{tenant_id}', 'SK': f'TASK#{task_id}'}\<close>.\<close>

definition task_key :: "runtime \<Rightarrow> json \<Rightarrow> json \<Rightarrow> pkey" where
  "task_key rt tenant_id task_id =
     (''TENANT#'' @ py_format rt tenant_id, ''TASK#'' @ py_format rt task_id)"

subsection \<open>services/tasks/delete_task.py\<close>

definition delete_task_try :: "runtime \<Rightarrow> json \<Rightarrow> json prog" where
  "delete_task_try rt event =
     thn (lift (getitem event ''requestContext'')) (\<lambda>request_context.
     thn (lift (getitem request_context ''authorizer'')) (\<lambda>authorizer.
     thn (lift (getitem authorizer ''tenant_id'')) (\<lambda>tenant_id.
     thn (lift (getitem authorizer ''user_id'')) (\<lambda>user_id.
     thn (lift (getitem authorizer ''role'')) (\<lambda>user_role.
     thn (lift (getitem event ''pathParameters'')) (\<lambda>path_parameters.
     thn (lift (getitem path_parameters ''id'')) (\<lambda>task_id.
     if user_role \<noteq> JStr ''ADMIN''
     then ret (error_response 403 ''Forbidden'' ''Only administrators can delete tasks'')
     else
     thn (get_item rt (task_key rt tenant_id task_id)) (\<lambda>existing_task_response.
     case existing_task_response of
       None \<Rightarrow>
         ret (error_response 404 ''Task Not Found''
                (''Task '' @ py_format rt task_id @ '' not found for tenant ''
                   @ py_format rt tenant_id))
     | Some existing_task \<Rightarrow>
     thn (delete_item rt (task_key rt tenant_id task_id)) (\<lambda>_.
     ret (response 200 cors_headers
            (JObj [(''message'', JStr ''Task deleted successfully''),
                   (''deleted_task'',
                    JObj [(''task_id'', task_id),
                          (''tenant_id'', tenant_id),
                          (''title'', item_get existing_task ''title'' (JStr [])),
                          (''deleted_by'', user_id),
                          (''deleted_at'', item_get existing_task ''updated_at'' (JStr []))])])))))))))))"

text \<open>
  \<^verbatim>\<open>except KeyError\<close> answers 400, \<^verbatim>\<open>except Exception\<close> answers 500; what the
  services hold when the exception is raised stays as it is.
\<close>

definition delete_task_handler :: "runtime \<Rightarrow> json \<Rightarrow> world \<Rightarrow> json \<times> world" where
  "delete_task_handler rt event w =
     (case delete_task_try rt event w of
        (Inr r, w') \<Rightarrow> (r, w')
      | (Inl (KeyError k), w') \<Rightarrow>
          (error_response 400 ''Bad Request'' (''Missing required field: '' @ quoted k), w')
      | (Inl e, w') \<Rightarrow>
          (error_response 500 ''Internal Server Error'' ''Failed to delete task'', w'))"

subsection \<open>services/tasks/update_task.py\<close>

definition updatable_fields :: "string list" where
  "updatable_fields = [''title'', ''description'', ''status'', ''priority'', ''assigned_to'']"

text \<open>
  \<^verbatim>\<open>
  for field in updatable_fields:
      if field in body:
          update_expression += f", {field} = :{field}"
          expression_values[f':{field}'] = body[field]
  \<close>
  The update expression \<^verbatim>\<open>"SET a = :a, b = :b"\<close> is kept as the list of its
  clauses, \<open>[(a, :a), (b, :b)]\<close>.
\<close>

fun set_fields ::
  "json \<Rightarrow> string list \<Rightarrow> (string \<times> string) list \<times> (string \<rightharpoonup> json)
     \<Rightarrow> exn + ((string \<times> string) list \<times> (string \<rightharpoonup> json))" where
  "set_fields body [] acc = Inr acc"
| "set_fields body (field # later) (update_expression, expression_values) =
     (case contains field body of
        Inl e \<Rightarrow> Inl e
      | Inr present \<Rightarrow>
          if present
          then (case getitem body field of
                  Inl e \<Rightarrow> Inl e
                | Inr v \<Rightarrow>
                    set_fields body later
                      (update_expression @ [(field, '':'' @ field)],
                       expression_values('':'' @ field \<mapsto> v)))
          else set_fields body later (update_expression, expression_values))"

text \<open>The response of an update, read from the attributes the store returns.\<close>

definition update_response_task :: "item \<Rightarrow> exn + json" where
  "update_response_task updated_task =
     (case item_getitem updated_task ''task_id'' of Inl e \<Rightarrow> Inl e | Inr task_id \<Rightarrow>
     (case item_getitem updated_task ''tenant_id'' of Inl e \<Rightarrow> Inl e | Inr tenant_id \<Rightarrow>
     (case item_getitem updated_task ''title'' of Inl e \<Rightarrow> Inl e | Inr title \<Rightarrow>
     (case item_getitem updated_task ''status'' of Inl e \<Rightarrow> Inl e | Inr status \<Rightarrow>
     (case item_getitem updated_task ''created_at'' of Inl e \<Rightarrow> Inl e | Inr created_at \<Rightarrow>
     (case item_getitem updated_task ''updated_at'' of Inl e \<Rightarrow> Inl e | Inr updated_at \<Rightarrow>
       Inr (JObj [(''task_id'', task_id),
                  (''tenant_id'', tenant_id),
                  (''title'', title),
                  (''description'', item_get updated_task ''description'' (JStr [])),
                  (''status'', status),
                  (''priority'', item_get updated_task ''priority'' (JStr ''MEDIUM'')),
                  (''assigned_to'', item_get updated_task ''assigned_to'' (JStr [])),
                  (''created_by'', item_get updated_task ''created_by'' (JStr [])),
                  (''created_at'', created_at),
                  (''updated_at'', updated_at)])))))))"

definition update_task_try :: "runtime \<Rightarrow> json \<Rightarrow> json prog" where
  "update_task_try rt event =
     thn (lift (getitem event ''requestContext'')) (\<lambda>request_context.
     thn (lift (getitem request_context ''authorizer'')) (\<lambda>authorizer.
     thn (lift (getitem authorizer ''tenant_id'')) (\<lambda>tenant_id.
     thn (lift (getitem authorizer ''user_id'')) (\<lambda>user_id.
     thn (lift (getitem authorizer ''role'')) (\<lambda>user_role.
     thn (lift (getitem event ''pathParameters'')) (\<lambda>path_parameters.
     thn (lift (getitem path_parameters ''id'')) (\<lambda>task_id.
     thn (lift (getitem event ''body'')) (\<lambda>raw_body.
     thn (lift (json_loads rt raw_body)) (\<lambda>body.
     thn (get_item rt (task_key rt tenant_id task_id)) (\<lambda>existing_task_response.
     case existing_task_response of
       None \<Rightarrow>
         ret (error_response 404 ''Task Not Found''
                (''Task '' @ py_format rt task_id @ '' not found for tenant ''
                   @ py_format rt tenant_id))
     | Some existing_task \<Rightarrow>
     if user_role = JStr ''MEMBER'' \<and> item_get existing_task ''created_by'' JNull \<noteq> user_id
     then ret (error_response 403 ''Forbidden'' ''Members can only update their own tasks'')
     else
     thn (utcnow rt) (\<lambda>now.
     thn (lift (set_fields body updatable_fields
                  ([(''updated_at'', '':updated_at'')],
                   [('':updated_at'') \<mapsto> JStr (now @ ''Z'')]))) (\<lambda>(update_expression, expression_values).
     thn (lift (contains ''status'' body)) (\<lambda>status_in_body.
     thn (if status_in_body
          then thn (lift (getitem body ''status'')) (\<lambda>status.
               ret (update_expression @ [(''GSI1SK'', '':gsi1sk'')],
                    expression_values('':gsi1sk'' \<mapsto>
                      JStr (''STATUS#'' @ py_format rt status @ ''#'' @ now @ ''Z''))))
          else ret (update_expression, expression_values)) (\<lambda>(update_expression, expression_values).
     thn (update_item rt (task_key rt tenant_id task_id) update_expression expression_values)
       (\<lambda>updated_task.
     thn (lift (update_response_task updated_task)) (\<lambda>response_task.
     ret (response 200 cors_headers response_task)))))))))))))))))"

definition update_task_handler :: "runtime \<Rightarrow> json \<Rightarrow> world \<Rightarrow> json \<times> world" where
  "update_task_handler rt event w =
     (case update_task_try rt event w of
        (Inr r, w') \<Rightarrow> (r, w')
      | (Inl (KeyError k), w') \<Rightarrow>
          (error_response 400 ''Bad Request'' (''Missing required field: '' @ quoted k), w')
      | (Inl JSONDecodeError, w') \<Rightarrow>
          (error_response 400 ''Invalid JSON'' ''Request body must be valid JSON'', w')
      | (Inl e, w') \<Rightarrow>
          (error_response 500 ''Internal Server Error'' ''Failed to update task'', w'))"

subsection \<open>services/tasks/create_task.py\<close>

text \<open>The item of a new task, as the dict literal builds it.\<close>

definition create_task_item ::
  "runtime \<Rightarrow> json \<Rightarrow> json \<Rightarrow> string \<Rightarrow> string \<Rightarrow> json \<Rightarrow> exn + item" where
  "create_task_item rt tenant_id user_id task_id current_time body =
     (case dict_get body ''status'' (JStr ''OPEN'') of Inl e \<Rightarrow> Inl e | Inr status \<Rightarrow>
     (case getitem body ''title'' of Inl e \<Rightarrow> Inl e | Inr title \<Rightarrow>
     (case dict_get body ''description'' (JStr []) of Inl e \<Rightarrow> Inl e | Inr description \<Rightarrow>
     (case dict_get body ''priority'' (JStr ''MEDIUM'') of Inl e \<Rightarrow> Inl e | Inr priority \<Rightarrow>
     (case dict_get body ''assigned_to'' (JStr []) of Inl e \<Rightarrow> Inl e | Inr assigned_to \<Rightarrow>
       Inr [''PK'' \<mapsto> JStr (''TENANT#'' @ py_format rt tenant_id),
            ''SK'' \<mapsto> JStr (''TASK#'' @ task_id),
            ''GSI1PK'' \<mapsto> JStr (''TENANT#'' @ py_format rt tenant_id),
            ''GSI1SK'' \<mapsto> JStr (''STATUS#'' @ py_format rt status @ ''#'' @ current_time),
            ''task_id'' \<mapsto> JStr task_id,
            ''tenant_id'' \<mapsto> tenant_id,
            ''title'' \<mapsto> title,
            ''description'' \<mapsto> description,
            ''status'' \<mapsto> status,
            ''priority'' \<mapsto> priority,
            ''assigned_to'' \<mapsto> assigned_to,
            ''created_by'' \<mapsto> user_id,
            ''created_at'' \<mapsto> JStr current_time,
            ''updated_at'' \<mapsto> JStr current_time,
            ''entity_type'' \<mapsto> JStr ''TASK''])))))"

text \<open>
  The TaskCreated entry handed to the event bus. Its detail holds the task id,
  tenant id, title, creator and creation time, which are the values of these
  attributes in the item just written; \<^verbatim>\<open>json.dumps\<close> of the detail is not modelled.
\<close>

definition task_created_entry :: "runtime \<Rightarrow> item \<Rightarrow> json" where
  "task_created_entry rt task_item =
     JObj [(''Source'', JStr ''saas.tasks''),
           (''DetailType'', JStr ''Task Created''),
           (''Detail'',
            JObj [(''task_id'', item_get task_item ''task_id'' JNull),
                  (''tenant_id'', item_get task_item ''tenant_id'' JNull),
                  (''title'', item_get task_item ''title'' JNull),
                  (''created_by'', item_get task_item ''created_by'' JNull),
                  (''created_at'', item_get task_item ''created_at'' JNull)]),
           (''EventBusName'', event_bus_name rt)]"

definition create_response_task :: "item \<Rightarrow> json" where
  "create_response_task task_item =
     JObj (map (\<lambda>k. (k, item_get task_item k JNull))
             [''task_id'', ''tenant_id'', ''title'', ''description'', ''status'',
              ''priority'', ''assigned_to'', ''created_by'', ''created_at'', ''updated_at''])"

definition create_task_try :: "runtime \<Rightarrow> json \<Rightarrow> json prog" where
  "create_task_try rt event =
     thn (lift (getitem event ''requestContext'')) (\<lambda>request_context.
     thn (lift (getitem request_context ''authorizer'')) (\<lambda>authorizer.
     thn (lift (getitem authorizer ''tenant_id'')) (\<lambda>tenant_id.
     thn (lift (getitem authorizer ''user_id'')) (\<lambda>user_id.
     thn (lift (getitem authorizer ''role'')) (\<lambda>user_role.
     thn (lift (getitem event ''body'')) (\<lambda>raw_body.
     thn (lift (json_loads rt raw_body)) (\<lambda>body.
     thn (lift (dict_get body ''title'' JNull)) (\<lambda>title.
     if \<not> truthy title
     then ret (error_response 400 ''Title is required'' ''Task title cannot be empty'')
     else
     thn (utcnow rt) (\<lambda>now.
     thn (lift (create_task_item rt tenant_id user_id (uuid4 rt) (now @ ''Z'') body)) (\<lambda>task_item.
     thn (put_item rt task_item) (\<lambda>_.
     thn (put_events rt (task_created_entry rt task_item)) (\<lambda>_.
     ret (response 201 cors_headers (create_response_task task_item))))))))))))))"

definition create_task_handler :: "runtime \<Rightarrow> json \<Rightarrow> world \<Rightarrow> json \<times> world" where
  "create_task_handler rt event w =
     (case create_task_try rt event w of
        (Inr r, w') \<Rightarrow> (r, w')
      | (Inl (KeyError k), w') \<Rightarrow>
          (error_response 400 ''Bad Request'' (''Missing required field: '' @ quoted k), w')
      | (Inl JSONDecodeError, w') \<Rightarrow>
          (error_response 400 ''Invalid JSON'' ''Request body must be valid JSON'', w')
      | (Inl e, w') \<Rightarrow>
          (error_response 500 ''Internal Server Error'' ''Failed to create task'', w'))"

section \<open>events/task_created_handler.py\<close>

text \<open>A statement of pure code after another: the first exception ends the sequence.\<close>

definition bnd :: "exn + 'a \<Rightarrow> ('a \<Rightarrow> exn + 'b) \<Rightarrow> exn + 'b" where
  "bnd r f = (case r of Inl e \<Rightarrow> Inl e | Inr x \<Rightarrow> f x)"

text \<open>\<^verbatim>\<open>x[:n]\<close>: a prefix of a string or of a list; nothing else can be sliced.\<close>

fun py_take :: "nat \<Rightarrow> json \<Rightarrow> exn + json" where
  "py_take n (JStr s) = Inr (JStr (take n s))"
| "py_take n (JArr xs) = Inr (JArr (take n xs))"
| "py_take n _ = Inl TypeError"

text \<open>
  Each projection step is wrapped on its own:
  \<^verbatim>\<open>try: ... except Exception as e: return {'status': 'error', 'error': str(e)}\<close>.
\<close>

definition caught :: "runtime \<Rightarrow> json prog \<Rightarrow> world \<Rightarrow> json \<times> world" where
  "caught rt m w =
     (case m w of
        (Inr r, w') \<Rightarrow> (r, w')
      | (Inl e, w') \<Rightarrow>
          (JObj [(''status'', JStr ''error''), (''error'', JStr (str_exn rt e))], w'))"

definition await_process_analytics :: "runtime \<Rightarrow> json \<Rightarrow> world \<Rightarrow> json \<times> world" where
  "await_process_analytics rt event_detail =
     caught rt
      (thn (lift (getitem event_detail ''tenant_id'')) (\<lambda>tenant_id.
       thn (lift (getitem event_detail ''task_id'')) (\<lambda>task_id.
       thn (lift (getitem event_detail ''created_at'')) (\<lambda>created_at.
       thn (lift (dict_get event_detail ''created_by'' JNull)) (\<lambda>created_by.
       thn (put_item rt
              [''PK'' \<mapsto> JStr (''TENANT#'' @ py_format rt tenant_id),
               ''SK'' \<mapsto> JStr (''ANALYTICS#'' @ py_format rt created_at @ ''#''
                                 @ py_format rt task_id),
               ''GSI1PK'' \<mapsto> JStr (''ANALYTICS#'' @ py_format rt tenant_id),
               ''GSI1SK'' \<mapsto> JStr (''TASK_CREATED#'' @ py_format rt created_at),
               ''event_type'' \<mapsto> JStr ''TASK_CREATED'',
               ''task_id'' \<mapsto> task_id,
               ''tenant_id'' \<mapsto> tenant_id,
               ''created_by'' \<mapsto> created_by,
               ''timestamp'' \<mapsto> created_at,
               ''entity_type'' \<mapsto> JStr ''ANALYTICS'']) (\<lambda>_.
       thn (put_item rt
              [''PK'' \<mapsto> JStr (''TENANT#'' @ py_format rt tenant_id),
               ''SK'' \<mapsto> JStr ''METRICS#TASKS'',
               ''total_tasks'' \<mapsto> JNum 1,
               ''tasks_this_month'' \<mapsto> JNum 1,
               ''last_task_created'' \<mapsto> created_at,
               ''entity_type'' \<mapsto> JStr ''METRICS'']) (\<lambda>_.
       ret (JObj [(''status'', JStr ''success''),
                  (''analytics_recorded'', JBool True),
                  (''metrics_updated'', JBool True)]))))))))"

definition await_send_notifications :: "runtime \<Rightarrow> json \<Rightarrow> world \<Rightarrow> json \<times> world" where
  "await_send_notifications rt event_detail =
     caught rt
      (thn (lift (getitem event_detail ''tenant_id'')) (\<lambda>tenant_id.
       thn (lift (getitem event_detail ''task_id'')) (\<lambda>task_id.
       thn (lift (getitem event_detail ''title'')) (\<lambda>title.
       thn (lift (dict_get event_detail ''created_by'' JNull)) (\<lambda>created_by.
       thn (utcnow rt) (\<lambda>now.
       thn (put_item rt
              [''PK'' \<mapsto> JStr (''TENANT#'' @ py_format rt tenant_id),
               ''SK'' \<mapsto> JStr (''NOTIFICATION#'' @ now @ ''Z#'' @ py_format rt task_id),
               ''notification_type'' \<mapsto> JStr ''TASK_CREATED'',
               ''task_id'' \<mapsto> task_id,
               ''tenant_id'' \<mapsto> tenant_id,
               ''title'' \<mapsto> title,
               ''created_by'' \<mapsto> created_by,
               ''status'' \<mapsto> JStr ''SENT'',
               ''channels'' \<mapsto> JArr [JStr ''email'', JStr ''slack''],
               ''entity_type'' \<mapsto> JStr ''NOTIFICATION'']) (\<lambda>_.
       ret (JObj [(''status'', JStr ''success''),
                  (''channels'', JArr [JStr ''email'', JStr ''slack'']),
                  (''notification_id'',
                   JStr (''NOTIFICATION#'' @ now @ ''Z#'' @ py_format rt task_id))]))))))))"

definition audit_item :: "runtime \<Rightarrow> json \<Rightarrow> json \<Rightarrow> json \<Rightarrow> json \<Rightarrow> json \<Rightarrow> item" where
  "audit_item rt tenant_id task_id created_at created_by title =
     [''PK'' \<mapsto> JStr (''TENANT#'' @ py_format rt tenant_id),
      ''SK'' \<mapsto> JStr (''AUDIT#'' @ py_format rt created_at @ ''#'' @ py_format rt task_id),
      ''GSI1PK'' \<mapsto> JStr (''AUDIT#'' @ py_format rt tenant_id),
      ''GSI1SK'' \<mapsto> JStr (''TASK_CREATED#'' @ py_format rt created_at),
      ''action'' \<mapsto> JStr ''TASK_CREATED'',
      ''resource_type'' \<mapsto> JStr ''TASK'',
      ''resource_id'' \<mapsto> task_id,
      ''tenant_id'' \<mapsto> tenant_id,
      ''user_id'' \<mapsto> created_by,
      ''timestamp'' \<mapsto> created_at,
      ''details'' \<mapsto> JObj [(''task_title'', title),
                            (''event_source'', JStr ''task_management_api'')],
      ''entity_type'' \<mapsto> JStr ''AUDIT'']"

definition await_create_audit_log :: "runtime \<Rightarrow> json \<Rightarrow> world \<Rightarrow> json \<times> world" where
  "await_create_audit_log rt event_detail =
     caught rt
      (thn (lift (getitem event_detail ''tenant_id'')) (\<lambda>tenant_id.
       thn (lift (getitem event_detail ''task_id'')) (\<lambda>task_id.
       thn (lift (getitem event_detail ''created_at'')) (\<lambda>created_at.
       thn (lift (dict_get event_detail ''created_by'' JNull)) (\<lambda>created_by.
       thn (lift (getitem event_detail ''title'')) (\<lambda>title.
       thn (put_item rt (audit_item rt tenant_id task_id created_at created_by title)) (\<lambda>_.
       thn (lift (py_take 7 created_at)) (\<lambda>year_month.
       thn (put_object rt (s3_bucket_name rt)
              (''audit-logs/'' @ py_format rt tenant_id @ ''/'' @ py_format rt year_month
                 @ ''/'' @ py_format rt task_id @ ''.json'')
              (audit_item rt tenant_id task_id created_at created_by title)) (\<lambda>_.
       ret (JObj [(''status'', JStr ''success''),
                  (''audit_recorded'', JBool True),
                  (''s3_backup'', JBool True),
                  (''s3_key'',
                   JStr (''audit-logs/'' @ py_format rt tenant_id @ ''/''
                           @ py_format rt year_month @ ''/'' @ py_format rt task_id
                           @ ''.json''))]))))))))))"

text \<open>
  The loop of the handler, inside its one \<^verbatim>\<open>try\<close>. It returns the exception that
  ended it, if any, with \<^verbatim>\<open>processed_events\<close> as it stood.
  \<^verbatim>\<open>
  for record in event.get('Records', []):
      if record.get('source') == 'saas.tasks':
          detail = record.get('detail', {})
          task_id = detail.get('task_id')
          ...
          analytics_result = await_process_analytics(detail)
          notification_result = await_send_notifications(detail)
          audit_result = await_create_audit_log(detail)
          processed_events.append({...})
  \<close>
\<close>

fun process_records ::
  "runtime \<Rightarrow> json list \<Rightarrow> json list \<Rightarrow> world \<Rightarrow> (exn option \<times> json list) \<times> world" where
  "process_records rt [] processed_events w = ((None, processed_events), w)"
| "process_records rt (record # records) processed_events w =
     (case dict_get record ''source'' JNull of
        Inl e \<Rightarrow> ((Some e, processed_events), w)
      | Inr source \<Rightarrow>
          if source = JStr ''saas.tasks''
          then
            (case dict_get record ''detail'' (JObj []) of
               Inl e \<Rightarrow> ((Some e, processed_events), w)
             | Inr detail \<Rightarrow>
            (case dict_get detail ''task_id'' JNull of
               Inl e \<Rightarrow> ((Some e, processed_events), w)
             | Inr task_id \<Rightarrow>
            (case dict_get detail ''tenant_id'' JNull of
               Inl e \<Rightarrow> ((Some e, processed_events), w)
             | Inr tenant_id \<Rightarrow>
            (case await_process_analytics rt detail w of (analytics_result, w1) \<Rightarrow>
            (case await_send_notifications rt detail w1 of (notification_result, w2) \<Rightarrow>
            (case await_create_audit_log rt detail w2 of (audit_result, w3) \<Rightarrow>
               process_records rt records
                 (processed_events @
                    [JObj [(''task_id'', task_id),
                           (''tenant_id'', tenant_id),
                           (''analytics'', analytics_result),
                           (''notifications'', notification_result),
                           (''audit'', audit_result)]])
                 w3))))))
          else process_records rt records processed_events w)"

definition task_created_handler :: "runtime \<Rightarrow> json \<Rightarrow> world \<Rightarrow> json \<times> world" where
  "task_created_handler rt event w =
     (case bnd (dict_get event ''Records'' (JArr [])) py_iter of
        Inl e \<Rightarrow>
          (JObj [(''statusCode'', JNum 500),
                 (''error'', JStr (str_exn rt e)),
                 (''processed_events'', JNum 0)], w)
      | Inr records \<Rightarrow>
          (case process_records rt records [] w of
             ((None, processed_events), w') \<Rightarrow>
               (JObj [(''statusCode'', JNum 200),
                      (''processed_events'', JNum (int (length processed_events))),
                      (''results'', JArr processed_events)], w')
           | ((Some e, processed_events), w') \<Rightarrow>
               (JObj [(''statusCode'', JNum 500),
                      (''error'', JStr (str_exn rt e)),
                      (''processed_events'', JNum (int (length processed_events)))], w')))"

section \<open>services/auth/authorizer.py\<close>

text \<open>
  The token library (PyJWT) and the fetch of the issuer's key set are outside
  the repository: \<open>get_unverified_header\<close>, \<open>from_jwk\<close> and \<open>jwt_decode\<close> are
  the library's functions, \<open>fetch_jwks\<close> is what \<^verbatim>\<open>requests.get(JWKS_URL).json()\<close>
  gives (or raises). Each returns a value or the exception it raises.
\<close>

record 'k jwt_lib =
  get_unverified_header :: "string \<Rightarrow> exn + json"
  fetch_jwks :: "exn + json"
  from_jwk :: "json \<Rightarrow> exn + 'k"
  jwt_decode :: "string \<Rightarrow> 'k \<Rightarrow> exn + json"

text \<open>
  \<^verbatim>\<open>
  for key in jwks['keys']:
      if key['kid'] == token_header['kid']:
          return jwt.algorithms.RSAAlgorithm.from_jwk(json.dumps(key))
  raise ValueError("Public key not found")
  \<close>
\<close>

fun find_key :: "'k jwt_lib \<Rightarrow> json list \<Rightarrow> json \<Rightarrow> exn + 'k" where
  "find_key lib [] token_header = Inl (ValueError ''Public key not found'')"
| "find_key lib (key # keys) token_header =
     bnd (getitem key ''kid'') (\<lambda>kid.
     bnd (getitem token_header ''kid'') (\<lambda>token_kid.
     if kid = token_kid then from_jwk lib key else find_key lib keys token_header))"

definition get_public_key :: "'k jwt_lib \<Rightarrow> json \<Rightarrow> exn + 'k" where
  "get_public_key lib token_header =
     bnd (fetch_jwks lib) (\<lambda>jwks.
     bnd (getitem jwks ''keys'') (\<lambda>keys_value.
     bnd (py_iter keys_value) (\<lambda>keys.
     find_key lib keys token_header)))"

text \<open>
  \<^verbatim>\<open>verify_token\<close>: an expired or invalid token becomes a ValueError; any other
  exception passes through.
\<close>

definition verify_token :: "'k jwt_lib \<Rightarrow> string \<Rightarrow> exn + json" where
  "verify_token lib token =
     (case bnd (get_unverified_header lib token) (\<lambda>unverified_header.
           bnd (get_public_key lib unverified_header) (\<lambda>public_key.
           jwt_decode lib token public_key)) of
        Inl ExpiredSignatureError \<Rightarrow> Inl (ValueError ''Token has expired'')
      | Inl (InvalidTokenError msg) \<Rightarrow> Inl (ValueError (''Invalid token: '' @ msg))
      | r \<Rightarrow> r)"

definition extract_tenant_context :: "json \<Rightarrow> exn + json" where
  "extract_tenant_context claims =
     bnd (dict_get claims ''custom:tenant_id'' (JStr ''karachi-tech'')) (\<lambda>tenant_id.
     bnd (dict_get claims ''sub'' JNull) (\<lambda>user_id.
     bnd (dict_get claims ''email'' (JStr [])) (\<lambda>email.
     bnd (dict_get claims ''custom:role'' (JStr ''MEMBER'')) (\<lambda>role.
     bnd (dict_get claims ''cognito:groups'' (JArr [])) (\<lambda>cognito_groups.
     bnd (contains ''Administrators'' cognito_groups) (\<lambda>is_admin.
     bnd (if is_admin then Inr (JStr ''ADMIN'')
          else bnd (contains ''Members'' cognito_groups) (\<lambda>is_member.
               Inr (if is_member then JStr ''MEMBER'' else role))) (\<lambda>role.
     Inr (JObj [(''tenant_id'', tenant_id),
                (''user_id'', user_id),
                (''email'', email),
                (''role'', role)]))))))))"

text \<open>
  \<^verbatim>\<open>generate_policy(effect, resource, context=None)\<close>: the context is attached
  only when it is given and not empty.
\<close>

definition generate_policy :: "string \<Rightarrow> json \<Rightarrow> json option \<Rightarrow> exn + json" where
  "generate_policy effect resource context =
     bnd (case context of
            None \<Rightarrow> Inr (JStr ''unknown'')
          | Some c \<Rightarrow> if truthy c then dict_get c ''user_id'' (JStr ''unknown'')
                       else Inr (JStr ''unknown'')) (\<lambda>principal_id.
     Inr (JObj ([(''principalId'', principal_id),
                 (''policyDocument'',
                  JObj [(''Version'', JStr ''2012-10-17''),
                        (''Statement'',
                         JArr [JObj [(''Action'', JStr ''execute-api:Invoke''),
                                     (''Effect'', JStr effect),
                                     (''Resource'', resource)]])])]
                @ (case context of
                     None \<Rightarrow> []
                   | Some c \<Rightarrow> if truthy c then [(''context'', c)] else []))))"

text \<open>\<^verbatim>\<open>s.startswith(pat)\<close>: only a string has the method.\<close>

fun startswith :: "json \<Rightarrow> string \<Rightarrow> exn + bool" where
  "startswith (JStr s) pat = Inr (prefix pat s)"
| "startswith _ pat = Inl AttributeError"

text \<open>\<^verbatim>\<open>s.replace(pat, '')\<close>: every occurrence of \<open>pat\<close> is removed, from the left.\<close>

function remove_all :: "string \<Rightarrow> string \<Rightarrow> string" where
  "remove_all pat [] = []"
| "remove_all pat (c # cs) =
     (if pat \<noteq> [] \<and> prefix pat (c # cs)
      then remove_all pat (drop (length pat) (c # cs))
      else c # remove_all pat cs)"
  by pat_completeness auto
termination
  by (relation "measure (\<lambda>(pat, s). length s)") (auto simp: neq_Nil_conv)

text \<open>The body of the handler's \<^verbatim>\<open>try\<close>.\<close>

definition authorizer_try :: "'k jwt_lib \<Rightarrow> json \<Rightarrow> exn + json" where
  "authorizer_try lib event =
     bnd (dict_get event ''authorizationToken'' (JStr [])) (\<lambda>auth_token.
     bnd (startswith auth_token ''Bearer '') (\<lambda>is_bearer.
     if \<not> is_bearer then Inl (ValueError ''Invalid authorization header'')
     else
     bnd (case auth_token of JStr s \<Rightarrow> Inr (remove_all ''Bearer '' s)
                           | _ \<Rightarrow> Inl AttributeError) (\<lambda>jwt_token.
     bnd (verify_token lib jwt_token) (\<lambda>claims.
     bnd (extract_tenant_context claims) (\<lambda>tenant_context.
     bnd (getitem event ''methodArn'') (\<lambda>method_arn.
     generate_policy ''Allow'' method_arn (Some tenant_context)))))))"

text \<open>
  Both \<^verbatim>\<open>except\<close> clauses return \<^verbatim>\<open>generate_policy('Deny', event['methodArn'])\<close>;
  an exception raised there leaves the handler.
\<close>

definition authorizer_handler :: "'k jwt_lib \<Rightarrow> json \<Rightarrow> exn + json" where
  "authorizer_handler lib event =
     (case authorizer_try lib event of
        Inr policy \<Rightarrow> Inr policy
      | Inl e \<Rightarrow> bnd (getitem event ''methodArn'') (\<lambda>method_arn.
                 generate_policy ''Deny'' method_arn None))"

text \<open>The decision of a policy, and whether it carries a context.\<close>

definition policy_effect :: "json \<Rightarrow> exn + json" where
  "policy_effect policy =
     bnd (getitem policy ''policyDocument'') (\<lambda>document.
     bnd (getitem document ''Statement'') (\<lambda>statements.
     case statements of
       JArr [statement] \<Rightarrow> getitem statement ''Effect''
     | _ \<Rightarrow> Inl TypeError))"

definition has_context :: "json \<Rightarrow> bool" where
  "has_context policy = (contains ''context'' policy = Inr True)"

section \<open>Requests and responses\<close>

text \<open>What a request carries: the authorizer's context and the task id of the path.\<close>

definition authenticated_as :: "json \<Rightarrow> json \<Rightarrow> json \<Rightarrow> json \<Rightarrow> bool" where
  "authenticated_as event tenant_id user_id user_role =
     (case getitem event ''requestContext'' of
        Inl e \<Rightarrow> False
      | Inr request_context \<Rightarrow>
          (case getitem request_context ''authorizer'' of
             Inl e \<Rightarrow> False
           | Inr authorizer \<Rightarrow>
               getitem authorizer ''tenant_id'' = Inr tenant_id
               \<and> getitem authorizer ''user_id'' = Inr user_id
               \<and> getitem authorizer ''role'' = Inr user_role))"

definition path_id :: "json \<Rightarrow> json \<Rightarrow> bool" where
  "path_id event task_id =
     (case getitem event ''pathParameters'' of
        Inl e \<Rightarrow> False
      | Inr path_parameters \<Rightarrow> getitem path_parameters ''id'' = Inr task_id)"

definition status_code :: "json \<Rightarrow> exn + json" where
  "status_code resp = getitem resp ''statusCode''"

subsection \<open>A tenant, a task and requests, for the examples\<close>

text \<open>
  A runtime whose services never raise and whose clock stands at one instant;
  its parser is set per example with \<open>loads\<close>.
\<close>

definition demo_runtime :: runtime where
  "demo_runtime =
     \<lparr>clock = (\<lambda>n. ''2024-05-01T10:00:00''),
      uuid4 = ''task-2'',
      repr = (\<lambda>v. ''<repr>''),
      message = (\<lambda>e. ''<message>''),
      loads = (\<lambda>s. None),
      event_bus_name = JStr ''saas-events'',
      s3_bucket_name = JStr ''saas-audit'',
      raises = (\<lambda>a. False)\<rparr>"

text \<open>Tenant acme holds one task, task-1, created by alice.\<close>

definition demo_task :: item where
  "demo_task =
     [''PK'' \<mapsto> JStr ''TENANT#acme'',
      ''SK'' \<mapsto> JStr ''TASK#task-1'',
      ''GSI1PK'' \<mapsto> JStr ''TENANT#acme'',
      ''GSI1SK'' \<mapsto> JStr ''STATUS#OPEN#2024-04-01T09:00:00Z'',
      ''task_id'' \<mapsto> JStr ''task-1'',
      ''tenant_id'' \<mapsto> JStr ''acme'',
      ''title'' \<mapsto> JStr ''Ship v1'',
      ''description'' \<mapsto> JStr [],
      ''status'' \<mapsto> JStr ''OPEN'',
      ''priority'' \<mapsto> JStr ''HIGH'',
      ''assigned_to'' \<mapsto> JStr [],
      ''created_by'' \<mapsto> JStr ''alice'',
      ''created_at'' \<mapsto> JStr ''2024-04-01T09:00:00Z'',
      ''updated_at'' \<mapsto> JStr ''2024-04-01T09:00:00Z'',
      ''entity_type'' \<mapsto> JStr ''TASK'']"

definition demo_world :: world where
  "demo_world =
     \<lparr>table = [(''TENANT#acme'', ''TASK#task-1'') \<mapsto> demo_task],
      bus = [],
      archive = Map.empty,
      trace = [],
      ticks = 0\<rparr>"

text \<open>The event of an API request, as the gateway builds it after the authorizer.\<close>

definition api_event :: "string \<Rightarrow> string \<Rightarrow> string \<Rightarrow> string \<Rightarrow> string \<Rightarrow> json" where
  "api_event tenant user role task raw_body =
     JObj [(''requestContext'',
            JObj [(''authorizer'',
                   JObj [(''tenant_id'', JStr tenant),
                         (''user_id'', JStr user),
                         (''role'', JStr role)])]),
           (''pathParameters'', JObj [(''id'', JStr task)]),
           (''body'', JStr raw_body)]"

text \<open>The event of a POST /tasks request: no path parameter.\<close>

definition post_event :: "string \<Rightarrow> string \<Rightarrow> string \<Rightarrow> string \<Rightarrow> json" where
  "post_event tenant user role raw_body =
     JObj [(''requestContext'',
            JObj [(''authorizer'',
                   JObj [(''tenant_id'', JStr tenant),
                         (''user_id'', JStr user),
                         (''role'', JStr role)])]),
           (''body'', JStr raw_body)]"

text \<open>An event bus that refuses every publication, while the table answers.\<close>

definition publish_fails :: "access \<Rightarrow> bool" where
  "publish_fails a = (case a of PutEvents entry \<Rightarrow> True | _ \<Rightarrow> False)"

text \<open>The demo runtime with a parser that answers \<open>v\<close>, and the same with the bus down.\<close>

definition runtime_parsing :: "json \<Rightarrow> runtime" where
  "runtime_parsing v = demo_runtime\<lparr>loads := \<lambda>s. Some v\<rparr>"

definition bus_down_runtime :: "json \<Rightarrow> runtime" where
  "bus_down_runtime v = demo_runtime\<lparr>loads := \<lambda>s. Some v, raises := publish_fails\<rparr>"

text \<open>
  A token library whose key set holds key k1 and which reads every token as
  signed with k1; \<open>decoded\<close> is what verification of the signature and the
  expiry gives.
\<close>

definition demo_lib :: "exn + json \<Rightarrow> unit jwt_lib" where
  "demo_lib decoded =
     \<lparr>get_unverified_header = (\<lambda>token. Inr (JObj [(''kid'', JStr ''k1''), (''alg'', JStr ''RS256'')])),
      fetch_jwks = Inr (JObj [(''keys'', JArr [JObj [(''kid'', JStr ''k1''), (''kty'', JStr ''RSA'')]])]),
      from_jwk = (\<lambda>key. Inr ()),
      jwt_decode = (\<lambda>token public_key. decoded)\<rparr>"

definition authorizer_event :: "string \<Rightarrow> json" where
  "authorizer_event auth_token =
     JObj [(''authorizationToken'', JStr auth_token),
           (''methodArn'', JStr ''arn:aws:execute-api:eu-west-1:123:api/prod/GET/tasks'')]"

text \<open>
  A TaskCreated record of tenant acme, and a record of the same source whose
  detail is null.
\<close>

definition task_created_record :: "string \<Rightarrow> json" where
  "task_created_record task =
     JObj [(''source'', JStr ''saas.tasks''),
           (''detail-type'', JStr ''Task Created''),
           (''detail'',
            JObj [(''task_id'', JStr task),
                  (''tenant_id'', JStr ''acme''),
                  (''title'', JStr ''Ship v2''),
                  (''created_by'', JStr ''alice''),
                  (''created_at'', JStr ''2024-05-01T10:00:00Z'')])]"

definition malformed_record :: json where
  "malformed_record =
     JObj [(''source'', JStr ''saas.tasks''),
           (''detail-type'', JStr ''Task Created''),
           (''detail'', JNull)]"

text \<open>An attribute of the item the table holds under a key.\<close>

definition stored :: "world \<Rightarrow> pkey \<Rightarrow> string \<Rightarrow> json option" where
  "stored w k a = (case table w k of None \<Rightarrow> None | Some it \<Rightarrow> it a)"

section \<open>The permission policy\<close>

text \<open>
  C1. The permission policy is a total function (the definition above has no
  failing branch and returns a truth value for every role, action, owner and
  user) and it matches the matrix: ADMIN is always allowed; MEMBER is allowed
  to create and to read, is allowed to update exactly when the resource owner
  equals the current user, and is never allowed to delete; every other role is
  denied.
\<close>

theorem check_user_permissions_matrix:
  "(user_role = ''ADMIN'' \<longrightarrow>
      check_user_permissions user_role action resource_owner current_user)
   \<and> (user_role = ''MEMBER'' \<longrightarrow>
        (action = ''create'' \<or> action = ''read'' \<longrightarrow>
           check_user_permissions user_role action resource_owner current_user)
      \<and> (action = ''update'' \<longrightarrow>
           (check_user_permissions user_role action resource_owner current_user
              \<longleftrightarrow> resource_owner = current_user))
      \<and> (action = ''delete'' \<longrightarrow>
           \<not> check_user_permissions user_role action resource_owner current_user))
   \<and> (user_role \<noteq> ''ADMIN'' \<and> user_role \<noteq> ''MEMBER'' \<longrightarrow>
        \<not> check_user_permissions user_role action resource_owner current_user)"
  by (simp add: check_user_permissions_def)

theorem check_user_permissions_matrix_witness:
  "check_user_permissions ''ADMIN'' ''delete'' (Some ''bob'') (Some ''ann'')
   \<and> check_user_permissions ''MEMBER'' ''read'' None None
   \<and> check_user_permissions ''MEMBER'' ''update'' (Some ''ann'') (Some ''ann'')
   \<and> \<not> check_user_permissions ''MEMBER'' ''update'' (Some ''bob'') (Some ''ann'')
   \<and> \<not> check_user_permissions ''MEMBER'' ''delete'' (Some ''ann'') (Some ''ann'')
   \<and> \<not> check_user_permissions ''GUEST'' ''read'' None None"
  using check_user_permissions_matrix [of "''ADMIN''" "''delete''" "Some ''bob''" "Some ''ann''"]
    check_user_permissions_matrix [of "''MEMBER''" "''read''" None None]
    check_user_permissions_matrix [of "''MEMBER''" "''update''" "Some ''ann''" "Some ''ann''"]
    check_user_permissions_matrix [of "''MEMBER''" "''update''" "Some ''bob''" "Some ''ann''"]
    check_user_permissions_matrix [of "''MEMBER''" "''delete''" "Some ''ann''" "Some ''ann''"]
    check_user_permissions_matrix [of "''GUEST''" "''read''" None None]
  by simp

text \<open>
  C10. A MEMBER update is allowed whenever the resource owner equals the
  current user, also when both are None (their default): the ownership test
  passes on missing ownership information.
\<close>

theorem check_user_permissions_member_update_none:
  "check_user_permissions ''MEMBER'' ''update'' None None
   \<and> check_user_permissions ''MEMBER'' ''update'' owner owner"
  by (simp add: check_user_permissions_def)

section \<open>Reading a request\<close>

lemmas prog_defs = thn_def lift_def ret_def call_def get_item_def delete_item_def

lemma authenticated_asD:
  assumes "authenticated_as event tenant_id user_id user_role"
  obtains rc au where "getitem event ''requestContext'' = Inr rc"
    "getitem rc ''authorizer'' = Inr au"
    "getitem au ''tenant_id'' = Inr tenant_id"
    "getitem au ''user_id'' = Inr user_id"
    "getitem au ''role'' = Inr user_role"
  using assms by (auto simp: authenticated_as_def split: sum.splits)

lemma path_idD:
  assumes "path_id event task_id"
  obtains pp where "getitem event ''pathParameters'' = Inr pp" "getitem pp ''id'' = Inr task_id"
  using assms by (auto simp: path_id_def split: sum.splits)

lemmas demo_defs = demo_runtime_def runtime_parsing_def bus_down_runtime_def publish_fails_def
  demo_world_def demo_task_def api_event_def post_event_def

section \<open>The reserved words the update handler meets\<close>

text \<open>
  Of the attribute names the Update handler puts into its expression, the
  store reserves \<open>status\<close> and none of the others.
\<close>

lemma status_reserved: "reserved ''status''"
  by (simp add: reserved_def reserved_words_def lower_case_def)

lemma not_reserved:
  "\<not> reserved ''updated_at''" "\<not> reserved ''title''" "\<not> reserved ''description''"
  "\<not> reserved ''priority''" "\<not> reserved ''assigned_to''" "\<not> reserved ''GSI1SK''"
  by (simp_all add: reserved_def reserved_words_def lower_case_def)

section \<open>Task Delete\<close>

text \<open>
  C6. Task Delete is admin-only and fails closed before it touches the store.
  For a request that carries the authorizer's context with a role other than
  ADMIN, the handler leaves the world as it is: the table, the bus, the archive
  and the trace of service calls are unchanged, so no read and no write was
  made; when the request names a task id, the answer is 403. For an ADMIN
  request that names a task id absent from the tenant's partition, the table is
  unchanged, the only service call is the read of that key (no delete), and
  the answer is 404 when that read answers.
\<close>

theorem delete_task_admin_only:
  assumes "authenticated_as event tenant_id user_id user_role"
  shows "(user_role \<noteq> JStr ''ADMIN'' \<longrightarrow>
            snd (delete_task_handler rt event w) = w
            \<and> (path_id event task_id \<longrightarrow>
                 status_code (fst (delete_task_handler rt event w)) = Inr (JNum 403)))
       \<and> (user_role = JStr ''ADMIN'' \<and> path_id event task_id
            \<and> table w (task_key rt tenant_id task_id) = None \<longrightarrow>
            table (snd (delete_task_handler rt event w)) = table w
            \<and> trace (snd (delete_task_handler rt event w))
                = trace w @ [GetItem (task_key rt tenant_id task_id)]
            \<and> (\<not> raises rt (GetItem (task_key rt tenant_id task_id)) \<longrightarrow>
                 status_code (fst (delete_task_handler rt event w)) = Inr (JNum 404)))"
proof -
  from assms obtain rc au where ctx:
    "getitem event ''requestContext'' = Inr rc"
    "getitem rc ''authorizer'' = Inr au"
    "getitem au ''tenant_id'' = Inr tenant_id"
    "getitem au ''user_id'' = Inr user_id"
    "getitem au ''role'' = Inr user_role"
    by (rule authenticated_asD)
  have unchanged: "snd (delete_task_handler rt event w) = w" if "user_role \<noteq> JStr ''ADMIN''"
    using that ctx
    by (simp add: delete_task_handler_def delete_task_try_def prog_defs
        split: sum.splits exn.splits prod.splits)
  have forbidden: "status_code (fst (delete_task_handler rt event w)) = Inr (JNum 403)"
    if "user_role \<noteq> JStr ''ADMIN''" "path_id event task_id"
  proof -
    from that(2) obtain pp where pp: "getitem event ''pathParameters'' = Inr pp"
      "getitem pp ''id'' = Inr task_id" by (rule path_idD)
    show ?thesis using that(1) ctx pp
      by (simp add: delete_task_handler_def delete_task_try_def prog_defs
          status_code_def error_response_def response_def)
  qed
  have absent: "table (snd (delete_task_handler rt event w)) = table w
            \<and> trace (snd (delete_task_handler rt event w))
                = trace w @ [GetItem (task_key rt tenant_id task_id)]
            \<and> (\<not> raises rt (GetItem (task_key rt tenant_id task_id)) \<longrightarrow>
                 status_code (fst (delete_task_handler rt event w)) = Inr (JNum 404))"
    if "user_role = JStr ''ADMIN''" "path_id event task_id"
      "table w (task_key rt tenant_id task_id) = None"
  proof -
    from that(2) obtain pp where pp: "getitem event ''pathParameters'' = Inr pp"
      "getitem pp ''id'' = Inr task_id" by (rule path_idD)
    show ?thesis using that(1,3) ctx pp
      by (simp add: delete_task_handler_def delete_task_try_def prog_defs Let_def
          status_code_def error_response_def response_def)
  qed
  show ?thesis using unchanged forbidden absent by (intro conjI impI) (elim conjE | simp)+
qed

theorem delete_task_admin_only_witness:
  "snd (delete_task_handler demo_runtime (api_event ''acme'' ''bob'' ''MEMBER'' ''task-1'' []) demo_world)
     = demo_world
   \<and> status_code (fst (delete_task_handler demo_runtime
        (api_event ''acme'' ''bob'' ''MEMBER'' ''task-1'' []) demo_world)) = Inr (JNum 403)
   \<and> table (snd (delete_task_handler demo_runtime
        (api_event ''acme'' ''root'' ''ADMIN'' ''task-9'' []) demo_world)) = table demo_world
   \<and> trace (snd (delete_task_handler demo_runtime
        (api_event ''acme'' ''root'' ''ADMIN'' ''task-9'' []) demo_world))
       = [GetItem (''TENANT#acme'', ''TASK#task-9'')]
   \<and> status_code (fst (delete_task_handler demo_runtime
        (api_event ''acme'' ''root'' ''ADMIN'' ''task-9'' []) demo_world)) = Inr (JNum 404)"
  using delete_task_admin_only [where event = "api_event ''acme'' ''bob'' ''MEMBER'' ''task-1'' []"
      and tenant_id = "JStr ''acme''" and user_id = "JStr ''bob''" and user_role = "JStr ''MEMBER''"
      and task_id = "JStr ''task-1''" and rt = demo_runtime and w = demo_world]
    delete_task_admin_only [where event = "api_event ''acme'' ''root'' ''ADMIN'' ''task-9'' []"
      and tenant_id = "JStr ''acme''" and user_id = "JStr ''root''" and user_role = "JStr ''ADMIN''"
      and task_id = "JStr ''task-9''" and rt = demo_runtime and w = demo_world]
  by (simp add: authenticated_as_def path_id_def demo_defs task_key_def py_format_def)

lemmas handler_defs = utcnow_def json_loads_def put_item_def put_events_def update_item_def
  item_get_def item_getitem_def status_code_def stored_def error_response_def response_def
  task_key_def py_format_def

lemmas update_defs = update_task_handler_def update_task_try_def update_response_task_def
  updatable_fields_def

lemmas create_defs = create_task_handler_def create_task_try_def create_task_item_def
  create_response_task_def task_created_entry_def

section \<open>Task Update: who may update\<close>

text \<open>
  What the handler does enforce: a MEMBER who is not the creator of the task is
  answered 403 after the one read, and the table is unchanged.
\<close>

lemma update_task_member_not_owner_forbidden:
  assumes auth: "authenticated_as event tenant_id user_id (JStr ''MEMBER'')"
    and path: "path_id event task_id"
    and raw: "getitem event ''body'' = Inr raw_body"
    and parsed: "json_loads rt raw_body = Inr body"
    and existing: "table w (task_key rt tenant_id task_id) = Some existing_task"
    and other: "item_get existing_task ''created_by'' JNull \<noteq> user_id"
    and store_up: "\<not> raises rt (GetItem (task_key rt tenant_id task_id))"
  shows "status_code (fst (update_task_handler rt event w)) = Inr (JNum 403)"
    and "table (snd (update_task_handler rt event w)) = table w"
    and "trace (snd (update_task_handler rt event w))
           = trace w @ [GetItem (task_key rt tenant_id task_id)]"
proof -
  from auth obtain rc au where ctx:
    "getitem event ''requestContext'' = Inr rc"
    "getitem rc ''authorizer'' = Inr au"
    "getitem au ''tenant_id'' = Inr tenant_id"
    "getitem au ''user_id'' = Inr user_id"
    "getitem au ''role'' = Inr (JStr ''MEMBER'')"
    by (rule authenticated_asD)
  from path obtain pp where pp: "getitem event ''pathParameters'' = Inr pp"
    "getitem pp ''id'' = Inr task_id" by (rule path_idD)
  have "update_task_try rt event w =
          (Inr (error_response 403 ''Forbidden'' ''Members can only update their own tasks''),
           w\<lparr>trace := trace w @ [GetItem (task_key rt tenant_id task_id)]\<rparr>)"
    using ctx pp raw parsed existing other store_up
    by (simp add: update_task_try_def prog_defs Let_def)
  then show "status_code (fst (update_task_handler rt event w)) = Inr (JNum 403)"
    and "table (snd (update_task_handler rt event w)) = table w"
    and "trace (snd (update_task_handler rt event w))
           = trace w @ [GetItem (task_key rt tenant_id task_id)]"
    by (simp_all add: update_task_handler_def status_code_def error_response_def response_def)
qed

text \<open>
  C2. The claim: the Update handler enforces the permission policy for action
  update, so a request whose role is neither ADMIN nor a MEMBER owning the task
  is answered 403 and the stored task is not modified. The handler only tests
  \<^verbatim>\<open>user_role == 'MEMBER' and existing_task.get('created_by') != user_id\<close>; a
  role other than ADMIN and MEMBER passes. At the input below,
  \<^const>\<open>check_user_permissions\<close> denies the update, while the handler answers 200
  and overwrites the title of alice's task for mallory, whose role is GUEST.
\<close>

theorem update_task_other_role_passes:
  "\<not> check_user_permissions ''GUEST'' ''update'' (Some ''alice'') (Some ''mallory'')
   \<and> stored demo_world (''TENANT#acme'', ''TASK#task-1'') ''created_by'' = Some (JStr ''alice'')
   \<and> stored demo_world (''TENANT#acme'', ''TASK#task-1'') ''title'' = Some (JStr ''Ship v1'')
   \<and> (case update_task_handler (runtime_parsing (JObj [(''title'', JStr ''taken over'')]))
           (api_event ''acme'' ''mallory'' ''GUEST'' ''task-1'' ''{title: taken over}'')
           demo_world of
         (resp, w') \<Rightarrow>
           status_code resp = Inr (JNum 200)
           \<and> stored w' (''TENANT#acme'', ''TASK#task-1'') ''title'' = Some (JStr ''taken over''))"
  by (simp add: check_user_permissions_def update_defs handler_defs prog_defs demo_defs Let_def
      not_reserved)

section \<open>Task Create: field validation\<close>

text \<open>
  C3. The claim: a Create request whose title has 201 characters, or whose
  description has 1001, is answered 400 and nothing is persisted. The
  handler only tests that the title is not empty and never calls
  \<^const>\<open>validate_task_data\<close>, which holds the two length checks. At the inputs
  below the validator rejects the body, while the handler answers 201 and
  stores the over-long title, and the over-long description.
\<close>

theorem create_task_long_title_accepted:
  "validate_task_data (JObj [(''title'', JStr (replicate 201 CHR ''a''))])
     = Inr (Some ''Title cannot exceed 200 characters'')
   \<and> (case create_task_handler
           (runtime_parsing (JObj [(''title'', JStr (replicate 201 CHR ''a''))]))
           (post_event ''acme'' ''alice'' ''MEMBER'' ''{title: aaa...}'') demo_world of
         (resp, w') \<Rightarrow>
           status_code resp = Inr (JNum 201)
           \<and> stored w' (''TENANT#acme'', ''TASK#task-2'') ''title''
               = Some (JStr (replicate 201 CHR ''a'')))
   \<and> validate_task_data (JObj [(''title'', JStr ''t''),
                               (''description'', JStr (replicate 1001 CHR ''d''))])
       = Inr (Some ''Description cannot exceed 1000 characters'')
   \<and> (case create_task_handler
           (runtime_parsing (JObj [(''title'', JStr ''t''),
                                   (''description'', JStr (replicate 1001 CHR ''d''))]))
           (post_event ''acme'' ''alice'' ''MEMBER'' ''{title: t, description: ddd...}'')
           demo_world of
         (resp, w') \<Rightarrow>
           status_code resp = Inr (JNum 201)
           \<and> stored w' (''TENANT#acme'', ''TASK#task-2'') ''description''
               = Some (JStr (replicate 1001 CHR ''d'')))"
  by (simp add: validate_task_data_def validate_required_fields_def valid_statuses_def
      valid_priorities_def create_defs handler_defs prog_defs demo_defs Let_def)

section \<open>Task Update: status and priority values\<close>

text \<open>
  C4. The claim: status and priority are restricted to their enumerated sets
  on mutation, so an Update request with a value outside them (status BOGUS)
  is answered 400, or is otherwise rejected before persistence, and the
  stored task is unchanged. The handler checks no value: it hands whatever
  the body gives to the store. At the input below BOGUS is outside the
  enumerated priorities, the answer is 200, and the stored task has priority
  BOGUS. (A body that holds status, valid or not, is refused by the store,
  as the section on the field-level merge shows.)
\<close>

theorem update_task_bogus_priority_persisted:
  "JStr ''BOGUS'' \<notin> JStr ` set valid_priorities
   \<and> (case update_task_handler (runtime_parsing (JObj [(''priority'', JStr ''BOGUS'')]))
           (api_event ''acme'' ''root'' ''ADMIN'' ''task-1'' ''{priority: BOGUS}'')
           demo_world of
         (resp, w') \<Rightarrow>
           status_code resp = Inr (JNum 200)
           \<and> stored w' (''TENANT#acme'', ''TASK#task-1'') ''priority'' = Some (JStr ''BOGUS''))"
  by (simp add: valid_priorities_def update_defs handler_defs prog_defs
      demo_defs Let_def not_reserved)

section \<open>Task Create: a publication that fails\<close>

text \<open>
  C9, as stated: when publishing the TaskCreated event fails, the persisted
  task is not rolled back and the failure is surfaced as a distinct warning
  rather than as a failure response. The second half fails: with the bus
  down, the task is persisted and the request is answered 500, Internal
  Server Error.
\<close>

theorem create_task_publish_failure_is_500:
  "(case create_task_handler (bus_down_runtime (JObj [(''title'', JStr ''Ship v2'')]))
          (post_event ''acme'' ''alice'' ''MEMBER'' ''{title: Ship v2}'') demo_world of
      (resp, w') \<Rightarrow>
        resp = error_response 500 ''Internal Server Error'' ''Failed to create task''
        \<and> status_code resp = Inr (JNum 500)
        \<and> stored w' (''TENANT#acme'', ''TASK#task-2'') ''title'' = Some (JStr ''Ship v2'')
        \<and> bus w' = [])"
  by (simp add: create_defs handler_defs prog_defs demo_defs Let_def)

lemma create_task_item_total:
  assumes "dict_get body ''title'' JNull = Inr title" "truthy title"
  shows "\<exists>task_item. create_task_item rt tenant_id user_id task_id current_time body = Inr task_item
           \<and> task_item ''PK'' = Some (JStr (''TENANT#'' @ py_format rt tenant_id))
           \<and> task_item ''SK'' = Some (JStr (''TASK#'' @ task_id))
           \<and> task_item ''title'' = Some title"
proof (cases body)
  case (JObj kvs)
  with assms obtain v where "map_of kvs ''title'' = Some v" "v = title"
    by (cases "map_of kvs ''title''") auto
  with JObj show ?thesis by (simp add: create_task_item_def)
qed (use assms in simp_all)

text \<open>
  C9, amended. For every Create request that carries the authorizer's context
  and a body with a non-empty title, when the table accepts the item and the
  bus refuses the publication: the task item the handler built is in the
  table under its key, exactly as written (it is neither deleted nor
  altered: the two service calls are the put and the failed publication),
  the bus holds no new event, and the request is answered 500, Internal
  Server Error, by the handler's catch-all.
\<close>

theorem create_task_publish_failure:
  assumes auth: "authenticated_as event tenant_id user_id user_role"
    and raw: "getitem event ''body'' = Inr raw_body"
    and parsed: "json_loads rt raw_body = Inr body"
    and title: "dict_get body ''title'' JNull = Inr title" "truthy title"
    and table_up: "\<And>it. \<not> raises rt (PutItem it)"
    and bus_down: "\<And>entry. raises rt (PutEvents entry)"
  shows "\<exists>task_item.
           create_task_item rt tenant_id user_id (uuid4 rt) (clock rt (ticks w) @ ''Z'') body
             = Inr task_item
         \<and> task_item ''title'' = Some title
         \<and> table (snd (create_task_handler rt event w))
             = (table w)(task_key rt tenant_id (JStr (uuid4 rt)) \<mapsto> task_item)
         \<and> bus (snd (create_task_handler rt event w)) = bus w
         \<and> trace (snd (create_task_handler rt event w))
             = trace w @ [PutItem task_item, PutEvents (task_created_entry rt task_item)]
         \<and> fst (create_task_handler rt event w)
             = error_response 500 ''Internal Server Error'' ''Failed to create task''"
proof -
  from auth obtain rc au where ctx:
    "getitem event ''requestContext'' = Inr rc"
    "getitem rc ''authorizer'' = Inr au"
    "getitem au ''tenant_id'' = Inr tenant_id"
    "getitem au ''user_id'' = Inr user_id"
    "getitem au ''role'' = Inr user_role"
    by (rule authenticated_asD)
  from create_task_item_total [OF title] obtain task_item where item:
    "create_task_item rt tenant_id user_id (uuid4 rt) (clock rt (ticks w) @ ''Z'') body
       = Inr task_item"
    "task_item ''PK'' = Some (JStr (''TENANT#'' @ py_format rt tenant_id))"
    "task_item ''SK'' = Some (JStr (''TASK#'' @ uuid4 rt))"
    "task_item ''title'' = Some title"
    by blast
  have "create_task_try rt event w =
          (Inl ServiceError,
           w\<lparr>ticks := Suc (ticks w),
             trace := trace w @ [PutItem task_item, PutEvents (task_created_entry rt task_item)],
             table := (table w)(task_key rt tenant_id (JStr (uuid4 rt)) \<mapsto> task_item)\<rparr>)"
    using ctx raw parsed title item table_up bus_down
    by (simp add: create_task_try_def prog_defs utcnow_def put_item_def put_events_def
        task_key_def py_format_def Let_def)
  then show ?thesis using item(1,4)
    by (simp add: create_task_handler_def)
qed

theorem create_task_publish_failure_witness:
  "\<exists>task_item.
      create_task_item (bus_down_runtime (JObj [(''title'', JStr ''Ship v2'')]))
        (JStr ''acme'') (JStr ''alice'')
        (uuid4 (bus_down_runtime (JObj [(''title'', JStr ''Ship v2'')])))
        (clock (bus_down_runtime (JObj [(''title'', JStr ''Ship v2'')])) (ticks demo_world) @ ''Z'')
        (JObj [(''title'', JStr ''Ship v2'')]) = Inr task_item
      \<and> task_item ''title'' = Some (JStr ''Ship v2'')
      \<and> table (snd (create_task_handler (bus_down_runtime (JObj [(''title'', JStr ''Ship v2'')]))
            (post_event ''acme'' ''alice'' ''MEMBER'' ''{title: Ship v2}'') demo_world))
          = (table demo_world)
              (task_key (bus_down_runtime (JObj [(''title'', JStr ''Ship v2'')])) (JStr ''acme'')
                 (JStr (uuid4 (bus_down_runtime (JObj [(''title'', JStr ''Ship v2'')]))))
               \<mapsto> task_item)
      \<and> bus (snd (create_task_handler (bus_down_runtime (JObj [(''title'', JStr ''Ship v2'')]))
            (post_event ''acme'' ''alice'' ''MEMBER'' ''{title: Ship v2}'') demo_world))
          = bus demo_world
      \<and> trace (snd (create_task_handler (bus_down_runtime (JObj [(''title'', JStr ''Ship v2'')]))
            (post_event ''acme'' ''alice'' ''MEMBER'' ''{title: Ship v2}'') demo_world))
          = trace demo_world
            @ [PutItem task_item,
               PutEvents (task_created_entry
                 (bus_down_runtime (JObj [(''title'', JStr ''Ship v2'')])) task_item)]
      \<and> fst (create_task_handler (bus_down_runtime (JObj [(''title'', JStr ''Ship v2'')]))
            (post_event ''acme'' ''alice'' ''MEMBER'' ''{title: Ship v2}'') demo_world)
          = error_response 500 ''Internal Server Error'' ''Failed to create task''"
proof -
  let ?rt = "bus_down_runtime (JObj [(''title'', JStr ''Ship v2'')])"
  let ?ev = "post_event ''acme'' ''alice'' ''MEMBER'' ''{title: Ship v2}''"
  have 1: "authenticated_as ?ev (JStr ''acme'') (JStr ''alice'') (JStr ''MEMBER'')"
    by (simp add: authenticated_as_def post_event_def)
  have 2: "getitem ?ev ''body'' = Inr (JStr ''{title: Ship v2}'')"
    by (simp add: post_event_def)
  have 3: "json_loads ?rt (JStr ''{title: Ship v2}'') = Inr (JObj [(''title'', JStr ''Ship v2'')])"
    by (simp add: json_loads_def bus_down_runtime_def demo_runtime_def)
  have 4: "dict_get (JObj [(''title'', JStr ''Ship v2'')]) ''title'' JNull = Inr (JStr ''Ship v2'')"
    "truthy (JStr ''Ship v2'')" by simp_all
  have 5: "\<And>it. \<not> raises ?rt (PutItem it)" "\<And>entry. raises ?rt (PutEvents entry)"
    by (simp_all add: bus_down_runtime_def demo_runtime_def publish_fails_def)
  show ?thesis
    by (rule create_task_publish_failure [OF 1 2 3 4 5])
qed

section \<open>Task Update: the field-level merge\<close>

text \<open>
  What the loop over the updatable fields builds for a dict body, and what the
  SET clauses do to an item. For a body without status the merge is as the
  specification describes it: the fields present in the body take the body's
  values, \<open>updated_at\<close> is the current time, every other attribute keeps its
  value, and the store sees one read and one write.
\<close>

lemma set_fields_dict:
  "\<exists>ue' ev'. set_fields (JObj kvs) fs (ue, ev) = Inr (ue', ev')
     \<and> ue' = ue @ map (\<lambda>f. (f, '':'' @ f)) (filter (\<lambda>f. map_of kvs f \<noteq> None) fs)
     \<and> (\<forall>p. ev' p = (if \<exists>f\<in>set fs. map_of kvs f \<noteq> None \<and> p = '':'' @ f
                      then map_of kvs (tl p) else ev p))"
proof (induction fs arbitrary: ue ev)
  case Nil
  then show ?case by simp
next
  case (Cons f fs)
  show ?case
  proof (cases "map_of kvs f")
    case None
    with Cons.IH [of ue ev] show ?thesis by auto
  next
    case (Some v)
    from Cons.IH [of "ue @ [(f, '':'' @ f)]" "ev('':'' @ f \<mapsto> v)"]
    obtain ue' ev' where *:
      "set_fields (JObj kvs) fs (ue @ [(f, '':'' @ f)], ev('':'' @ f \<mapsto> v)) = Inr (ue', ev')"
      "ue' = (ue @ [(f, '':'' @ f)]) @ map (\<lambda>f. (f, '':'' @ f)) (filter (\<lambda>f. map_of kvs f \<noteq> None) fs)"
      "\<And>p. ev' p = (if \<exists>f\<in>set fs. map_of kvs f \<noteq> None \<and> p = '':'' @ f
                      then map_of kvs (tl p) else (ev('':'' @ f \<mapsto> v)) p)"
      by blast
    show ?thesis using Some * by auto
  qed
qed

lemma apply_set_distinct:
  "distinct (map fst cs) \<Longrightarrow>
     apply_set cs vals it a = (case map_of cs a of None \<Rightarrow> it a | Some p \<Rightarrow> vals p)"
proof (induction cs arbitrary: it)
  case Nil
  then show ?case by simp
next
  case (Cons c cs)
  obtain a0 p0 where c: "c = (a0, p0)" by (cases c)
  from Cons.prems c have d: "distinct (map fst cs)" and n: "a0 \<notin> fst ` set cs" by auto
  from n have none: "map_of cs a0 = None" by (simp add: map_of_eq_None_iff)
  have "apply_set (c # cs) vals it a = apply_set cs vals (it(a0 := vals p0)) a"
    using c by simp
  also have "\<dots> = (case map_of cs a of None \<Rightarrow> (it(a0 := vals p0)) a | Some p \<Rightarrow> vals p)"
    by (rule Cons.IH [OF d])
  also have "\<dots> = (case map_of (c # cs) a of None \<Rightarrow> it a | Some p \<Rightarrow> vals p)"
    using c none by (auto split: option.splits)
  finally show ?case .
qed


lemma map_of_placeholders:
  "map_of (map (\<lambda>f. (f, CHR '':'' # f)) fs) a = (if a \<in> set fs then Some (CHR '':'' # a) else None)"
  by (induction fs) auto

lemma merged_item:
  assumes fs: "distinct fs" "''updated_at'' \<notin> set fs" "''GSI1SK'' \<notin> set fs"
      "''gsi1sk'' \<notin> set fs"
    and sf: "set_fields (JObj kvs) fs ([(''updated_at'', '':updated_at'')], ['':updated_at'' \<mapsto> u])
               = Inr (ue, ev)"
  shows "apply_set ue ev old a =
           (if a \<in> set fs \<and> map_of kvs a \<noteq> None then map_of kvs a
            else if a = ''updated_at'' then Some u else old a)"
    and "apply_set (ue @ [(''GSI1SK'', '':gsi1sk'')]) (ev('':gsi1sk'' \<mapsto> g)) old a =
           (if a = ''GSI1SK'' then Some g
            else if a \<in> set fs \<and> map_of kvs a \<noteq> None then map_of kvs a
            else if a = ''updated_at'' then Some u else old a)"
    and "list_all (\<lambda>(a, p). ev p \<noteq> None) ue"
    and "list_all (\<lambda>(a, p). (ev('':gsi1sk'' \<mapsto> g)) p \<noteq> None) (ue @ [(''GSI1SK'', '':gsi1sk'')])"
    and "set ue = insert (''updated_at'', '':updated_at'')
                   ((\<lambda>f. (f, '':'' @ f)) ` {f \<in> set fs. map_of kvs f \<noteq> None})"
proof -
  from set_fields_dict [of kvs fs "[(''updated_at'', '':updated_at'')]" "['':updated_at'' \<mapsto> u]"] sf
  have ue: "ue = (''updated_at'', '':updated_at'')
                  # map (\<lambda>f. (f, '':'' @ f)) (filter (\<lambda>f. map_of kvs f \<noteq> None) fs)"
    and ev: "\<And>p. ev p = (if \<exists>f\<in>set fs. map_of kvs f \<noteq> None \<and> p = '':'' @ f
                          then map_of kvs (tl p) else ['':updated_at'' \<mapsto> u] p)"
    by auto
  have d1: "distinct (map fst ue)"
    using fs by (simp add: ue comp_def distinct_map_filter)
  have d2: "distinct (map fst (ue @ [(''GSI1SK'', '':gsi1sk'')]))"
    using fs by (auto simp: ue comp_def distinct_map_filter)
  have m: "map_of ue a = (if a = ''updated_at'' then Some '':updated_at''
                          else if a \<in> set fs \<and> map_of kvs a \<noteq> None then Some ('':'' @ a) else None)"
    by (auto simp: ue map_of_placeholders)
  have evu: "ev '':updated_at'' = Some u"
    using fs(2) by (auto simp: ev)
  have evf: "ev (CHR '':'' # f) = map_of kvs f" if "f \<in> set fs" "map_of kvs f \<noteq> None" for f
    using that by (auto simp: ev)
  show "apply_set ue ev old a =
           (if a \<in> set fs \<and> map_of kvs a \<noteq> None then map_of kvs a
            else if a = ''updated_at'' then Some u else old a)"
    using fs(2) by (auto simp: apply_set_distinct [OF d1] m evu evf)
  have m2: "map_of (ue @ [(''GSI1SK'', '':gsi1sk'')]) a =
              (if a = ''updated_at'' then Some '':updated_at''
               else if a \<in> set fs \<and> map_of kvs a \<noteq> None then Some ('':'' @ a)
               else if a = ''GSI1SK'' then Some '':gsi1sk'' else None)"
    using fs(3) by (auto simp: map_of_append m map_add_def split: option.splits)
  show "apply_set (ue @ [(''GSI1SK'', '':gsi1sk'')]) (ev('':gsi1sk'' \<mapsto> g)) old a =
           (if a = ''GSI1SK'' then Some g
            else if a \<in> set fs \<and> map_of kvs a \<noteq> None then map_of kvs a
            else if a = ''updated_at'' then Some u else old a)"
    unfolding apply_set_distinct [OF d2] m2 using fs(2,3,4) by (auto simp: evu evf)
  show la: "list_all (\<lambda>(a, p). ev p \<noteq> None) ue"
    by (auto simp: ue list_all_iff evu evf)
  then show "list_all (\<lambda>(a, p). (ev('':gsi1sk'' \<mapsto> g)) p \<noteq> None) (ue @ [(''GSI1SK'', '':gsi1sk'')])"
    by (auto simp: list_all_iff)
  show "set ue = insert (''updated_at'', '':updated_at'')
                   ((\<lambda>f. (f, '':'' @ f)) ` {f \<in> set fs. map_of kvs f \<noteq> None})"
    by (auto simp: ue)
qed


lemma update_task_handler_world:
  "snd (update_task_handler rt event w) = snd (update_task_try rt event w)"
  by (simp add: update_task_handler_def split: prod.splits sum.splits exn.splits)

lemma update_task_try_world:
  assumes auth: "authenticated_as event tenant_id user_id user_role"
    and path: "path_id event task_id"
    and raw: "getitem event ''body'' = Inr raw_body"
    and parsed: "json_loads rt raw_body = Inr (JObj kvs)"
    and no_status: "map_of kvs ''status'' = None"
    and existing: "table w (task_key rt tenant_id task_id) = Some existing_task"
    and allowed: "\<not> (user_role = JStr ''MEMBER''
                      \<and> item_get existing_task ''created_by'' JNull \<noteq> user_id)"
    and store_up: "\<And>a. \<not> raises rt a"
    and sf: "set_fields (JObj kvs) updatable_fields
               ([(''updated_at'', '':updated_at'')],
                ['':updated_at'' \<mapsto> JStr (clock rt (ticks w) @ ''Z'')]) = Inr (ue, ev)"
    and ok: "list_all (\<lambda>(a, p). ev p \<noteq> None) ue"
    and names: "list_all (\<lambda>(a, p). \<not> reserved a) ue"
  shows "snd (update_task_try rt event w) =
           w\<lparr>ticks := Suc (ticks w),
             trace := trace w @ [GetItem (task_key rt tenant_id task_id),
                                 UpdateItem (task_key rt tenant_id task_id) ue ev],
             table := (table w)(task_key rt tenant_id task_id
                                  \<mapsto> apply_set ue ev existing_task)\<rparr>"
proof -
  from auth obtain rc au where ctx:
    "getitem event ''requestContext'' = Inr rc"
    "getitem rc ''authorizer'' = Inr au"
    "getitem au ''tenant_id'' = Inr tenant_id"
    "getitem au ''user_id'' = Inr user_id"
    "getitem au ''role'' = Inr user_role"
    by (rule authenticated_asD)
  from path obtain pp where pp: "getitem event ''pathParameters'' = Inr pp"
    "getitem pp ''id'' = Inr task_id" by (rule path_idD)
  from allowed have na:
    "(user_role = JStr ''MEMBER'' \<and> item_get existing_task ''created_by'' JNull \<noteq> user_id)
       = False" by simp
  show ?thesis
    using ctx pp raw parsed existing store_up sf ok names no_status
    by (simp add: update_task_try_def prog_defs utcnow_def update_item_def Let_def na
        split: sum.splits)
qed

lemma update_task_field_merge_without_status:
  assumes auth: "authenticated_as event tenant_id user_id user_role"
    and path: "path_id event task_id"
    and raw: "getitem event ''body'' = Inr raw_body"
    and parsed: "json_loads rt raw_body = Inr (JObj kvs)"
    and no_status: "map_of kvs ''status'' = None"
    and existing: "table w (task_key rt tenant_id task_id) = Some existing_task"
    and allowed: "\<not> (user_role = JStr ''MEMBER''
                      \<and> item_get existing_task ''created_by'' JNull \<noteq> user_id)"
    and store_up: "\<And>a. \<not> raises rt a"
  shows "\<exists>updated_task clauses vals.
           table (snd (update_task_handler rt event w))
             = (table w)(task_key rt tenant_id task_id \<mapsto> updated_task)
         \<and> trace (snd (update_task_handler rt event w))
             = trace w @ [GetItem (task_key rt tenant_id task_id),
                          UpdateItem (task_key rt tenant_id task_id) clauses vals]
         \<and> (\<forall>f \<in> set updatable_fields. f \<in> dom (map_of kvs) \<longrightarrow>
                updated_task f = map_of kvs f \<and> (f, '':'' @ f) \<in> set clauses)
         \<and> updated_task ''updated_at'' = Some (JStr (clock rt (ticks w) @ ''Z''))
         \<and> (''updated_at'', '':updated_at'') \<in> set clauses
         \<and> (\<forall>a. a \<noteq> ''updated_at''
                \<and> \<not> (a \<in> set updatable_fields \<and> a \<in> dom (map_of kvs)) \<longrightarrow>
                updated_task a = existing_task a)"
proof -
  let ?now = "clock rt (ticks w) @ ''Z''"
  let ?key = "task_key rt tenant_id task_id"
  let ?w' = "snd (update_task_handler rt event w)"
  from set_fields_dict [of kvs updatable_fields "[(''updated_at'', '':updated_at'')]"
      "['':updated_at'' \<mapsto> JStr ?now]"]
  obtain ue ev where sf:
    "set_fields (JObj kvs) updatable_fields
       ([(''updated_at'', '':updated_at'')], ['':updated_at'' \<mapsto> JStr ?now]) = Inr (ue, ev)"
    by blast
  have fs: "distinct updatable_fields" "''updated_at'' \<notin> set updatable_fields"
    "''GSI1SK'' \<notin> set updatable_fields" "''gsi1sk'' \<notin> set updatable_fields"
    by (simp_all add: updatable_fields_def)
  note mi = merged_item [OF fs sf]
  have names: "list_all (\<lambda>(a, p). \<not> reserved a) ue"
    using no_status by (auto simp: list_all_iff mi(5) updatable_fields_def not_reserved)
  have w': "snd (update_task_try rt event w) =
         w\<lparr>ticks := Suc (ticks w),
           trace := trace w @ [GetItem ?key, UpdateItem ?key ue ev],
           table := (table w)(?key \<mapsto> apply_set ue ev existing_task)\<rparr>"
    by (rule update_task_try_world
        [OF auth path raw parsed no_status existing allowed store_up sf mi(3) names])
  have c1: "table ?w' = (table w)(?key \<mapsto> apply_set ue ev existing_task)"
    and c2: "trace ?w' = trace w @ [GetItem ?key, UpdateItem ?key ue ev]"
    by (simp_all add: update_task_handler_world w')
  have c3: "\<forall>f \<in> set updatable_fields. f \<in> dom (map_of kvs) \<longrightarrow>
      apply_set ue ev existing_task f = map_of kvs f \<and> (f, '':'' @ f) \<in> set ue"
    by (auto simp: mi(1) mi(5))
  have c4: "apply_set ue ev existing_task ''updated_at'' = Some (JStr ?now)"
    using fs(2) by (simp add: mi(1))
  have c5: "(''updated_at'', '':updated_at'') \<in> set ue"
    by (simp add: mi(5))
  have c7: "\<forall>a. a \<noteq> ''updated_at''
      \<and> \<not> (a \<in> set updatable_fields \<and> a \<in> dom (map_of kvs)) \<longrightarrow>
      apply_set ue ev existing_task a = existing_task a"
    by (auto simp: mi(1))
  show ?thesis
    apply (rule exI [of _ "apply_set ue ev existing_task"])
    apply (rule exI [of _ ue])
    apply (rule exI [of _ ev])
    apply (intro conjI)
    apply (rule c1, rule c2, rule c3, rule c4, rule c5, rule c7)
    done
qed

text \<open>
  C5. The claim: Task Update performs a field-level merge for every existing
  task and every partial body, and when status is in the body GSI1SK is
  recomputed to \<open>STATUS#<new status>#<new updated_at>\<close> in the same single
  write. The handler does build that one write, with the clauses for status
  and GSI1SK, but it names the attribute \<open>status\<close> directly in the
  expression; the store reserves the word and refuses the write. At the two
  inputs below, an ADMIN setting status DONE (alone, and with priority LOW) on
  an existing task, the answer is 500 and the stored task keeps its status,
  its priority, its GSI1SK and its updated_at; the only write attempted is the
  refused \<open>UpdateItem\<close>.
\<close>

theorem update_task_status_refused:
  "JStr ''DONE'' \<in> JStr ` set valid_statuses
   \<and> (case update_task_handler (runtime_parsing (JObj [(''status'', JStr ''DONE'')]))
           (api_event ''acme'' ''root'' ''ADMIN'' ''task-1'' ''{status: DONE}'')
           demo_world of
         (resp, w') \<Rightarrow>
           resp = error_response 500 ''Internal Server Error'' ''Failed to update task''
           \<and> status_code resp = Inr (JNum 500)
           \<and> table w' = table demo_world
           \<and> stored w' (''TENANT#acme'', ''TASK#task-1'') ''status'' = Some (JStr ''OPEN'')
           \<and> stored w' (''TENANT#acme'', ''TASK#task-1'') ''GSI1SK''
               = Some (JStr ''STATUS#OPEN#2024-04-01T09:00:00Z'')
           \<and> stored w' (''TENANT#acme'', ''TASK#task-1'') ''updated_at''
               = Some (JStr ''2024-04-01T09:00:00Z'')
           \<and> length (trace w') = 2
           \<and> hd (trace w') = GetItem (''TENANT#acme'', ''TASK#task-1''))
   \<and> (case update_task_handler
           (runtime_parsing (JObj [(''status'', JStr ''DONE''), (''priority'', JStr ''LOW'')]))
           (api_event ''acme'' ''root'' ''ADMIN'' ''task-1'' ''{status: DONE, priority: LOW}'')
           demo_world of
         (resp, w') \<Rightarrow>
           status_code resp = Inr (JNum 500)
           \<and> table w' = table demo_world
           \<and> stored w' (''TENANT#acme'', ''TASK#task-1'') ''status'' = Some (JStr ''OPEN'')
           \<and> stored w' (''TENANT#acme'', ''TASK#task-1'') ''priority'' = Some (JStr ''HIGH''))"
  by (simp add: valid_statuses_def update_defs handler_defs prog_defs
      demo_defs Let_def not_reserved status_reserved)

section \<open>The authorizer\<close>

text \<open>The policies the handler can return, and what its \<^verbatim>\<open>try\<close> needs to succeed.\<close>

lemma extract_tenant_context_shape:
  assumes "extract_tenant_context claims = Inr tc"
  shows "\<exists>t u e r. tc = JObj [(''tenant_id'', t), (''user_id'', u), (''email'', e), (''role'', r)]"
  using assms
  by (auto simp: extract_tenant_context_def bnd_def split: sum.splits if_splits)

lemma allow_policy:
  "generate_policy ''Allow'' arn
     (Some (JObj [(''tenant_id'', t), (''user_id'', u), (''email'', e), (''role'', r)]))
   = Inr (JObj [(''principalId'', u),
                (''policyDocument'',
                  JObj [(''Version'', JStr ''2012-10-17''),
                        (''Statement'',
                         JArr [JObj [(''Action'', JStr ''execute-api:Invoke''),
                                     (''Effect'', JStr ''Allow''),
                                     (''Resource'', arn)]])]),
                (''context'',
                 JObj [(''tenant_id'', t), (''user_id'', u), (''email'', e), (''role'', r)])])"
  by (simp add: generate_policy_def bnd_def)

lemma deny_policy:
  "generate_policy ''Deny'' arn None
   = Inr (JObj [(''principalId'', JStr ''unknown''),
                (''policyDocument'',
                  JObj [(''Version'', JStr ''2012-10-17''),
                        (''Statement'',
                         JArr [JObj [(''Action'', JStr ''execute-api:Invoke''),
                                     (''Effect'', JStr ''Deny''),
                                     (''Resource'', arn)]])])])"
  by (simp add: generate_policy_def bnd_def)

lemma startswith_Inr:
  assumes "startswith v pat = Inr b"
  obtains s where "v = JStr s" "b = prefix pat s"
  using assms by (cases v) auto

lemma authorizer_try_Inr:
  assumes "authorizer_try lib event = Inr policy"
  shows "\<exists>auth_token claims.
           dict_get event ''authorizationToken'' (JStr []) = Inr (JStr auth_token)
         \<and> prefix ''Bearer '' auth_token
         \<and> verify_token lib (remove_all ''Bearer '' auth_token) = Inr claims
         \<and> policy_effect policy = Inr (JStr ''Allow'')
         \<and> has_context policy"
proof -
  from assms obtain v where v: "dict_get event ''authorizationToken'' (JStr []) = Inr v"
    by (auto simp: authorizer_try_def bnd_def split: sum.splits)
  from assms v obtain b where b: "startswith v ''Bearer '' = Inr b"
    by (auto simp: authorizer_try_def bnd_def split: sum.splits)
  from b obtain s where s: "v = JStr s" "b = prefix ''Bearer '' s"
    by (rule startswith_Inr)
  from assms v s have p: "prefix ''Bearer '' s"
    by (auto simp: authorizer_try_def bnd_def split: if_splits)
  from assms v s p obtain claims where c: "verify_token lib (remove_all ''Bearer '' s) = Inr claims"
    by (auto simp: authorizer_try_def bnd_def split: sum.splits)
  from assms v s p c obtain tc where tc: "extract_tenant_context claims = Inr tc"
    by (auto simp: authorizer_try_def bnd_def split: sum.splits)
  from assms v s p c tc obtain arn where arn: "getitem event ''methodArn'' = Inr arn"
    by (auto simp: authorizer_try_def bnd_def split: sum.splits)
  from extract_tenant_context_shape [OF tc] obtain t u e r where
    shape: "tc = JObj [(''tenant_id'', t), (''user_id'', u), (''email'', e), (''role'', r)]"
    by blast
  from assms v s p c tc arn have "policy =
      JObj [(''principalId'', u),
                (''policyDocument'',
                  JObj [(''Version'', JStr ''2012-10-17''),
                        (''Statement'',
                         JArr [JObj [(''Action'', JStr ''execute-api:Invoke''),
                                     (''Effect'', JStr ''Allow''),
                                     (''Resource'', arn)]])]),
                (''context'',
                 JObj [(''tenant_id'', t), (''user_id'', u), (''email'', e), (''role'', r)])]"
    by (simp add: authorizer_try_def bnd_def shape allow_policy)
  then have "policy_effect policy = Inr (JStr ''Allow'')" "has_context policy"
    by (simp_all add: policy_effect_def has_context_def bnd_def)
  with v s p c show ?thesis by simp
qed

lemma authorizer_handler_denies:
  assumes "authorizer_try lib event = Inl e"
  shows "authorizer_handler lib event =
           bnd (getitem event ''methodArn'') (\<lambda>method_arn. generate_policy ''Deny'' method_arn None)"
  using assms by (simp add: authorizer_handler_def)

lemma deny_policy_reads:
  assumes "bnd (getitem event ''methodArn'') (\<lambda>method_arn. generate_policy ''Deny'' method_arn None)
             = Inr policy"
  shows "policy_effect policy = Inr (JStr ''Deny'')" "\<not> has_context policy"
  using assms
  by (auto simp: bnd_def deny_policy policy_effect_def has_context_def split: sum.splits)

text \<open>
  C7. The authorizer fails closed. When the event carries a bearer token and
  its verification raises (whatever the exception: an invalid signature, an
  expired token, a key id that cannot be resolved, a malformed header, a
  key-set fetch that fails), every policy the handler returns is a Deny
  without context, and for an event that carries \<open>methodArn\<close> the handler
  does return that Deny policy. For every event, every returned policy is an
  Allow or a Deny, it carries the context exactly when it is an Allow, and
  an Allow is returned only when the verification of the bearer token
  succeeded.
\<close>

theorem authorizer_fails_closed:
  "(dict_get event ''authorizationToken'' (JStr []) = Inr (JStr auth_token)
      \<and> prefix ''Bearer '' auth_token
      \<and> verify_token lib (remove_all ''Bearer '' auth_token) = Inl e
    \<longrightarrow> (\<forall>policy. authorizer_handler lib event = Inr policy \<longrightarrow>
            policy_effect policy = Inr (JStr ''Deny'') \<and> \<not> has_context policy)
        \<and> (\<forall>arn. getitem event ''methodArn'' = Inr arn \<longrightarrow>
              authorizer_handler lib event = generate_policy ''Deny'' arn None
              \<and> (\<exists>policy. authorizer_handler lib event = Inr policy)))
   \<and> (\<forall>policy. authorizer_handler lib event = Inr policy \<longrightarrow>
         (policy_effect policy = Inr (JStr ''Allow'') \<or> policy_effect policy = Inr (JStr ''Deny''))
       \<and> (has_context policy \<longleftrightarrow> policy_effect policy = Inr (JStr ''Allow''))
       \<and> (policy_effect policy = Inr (JStr ''Allow'') \<longrightarrow>
            (\<exists>token claims.
               dict_get event ''authorizationToken'' (JStr []) = Inr (JStr token)
               \<and> prefix ''Bearer '' token
               \<and> verify_token lib (remove_all ''Bearer '' token) = Inr claims)))"
proof (intro conjI impI allI)
  fix policy
  assume h: "dict_get event ''authorizationToken'' (JStr []) = Inr (JStr auth_token)
      \<and> prefix ''Bearer '' auth_token
      \<and> verify_token lib (remove_all ''Bearer '' auth_token) = Inl e"
    and p: "authorizer_handler lib event = Inr policy"
  from h have "authorizer_try lib event = Inl e"
    by (simp add: authorizer_try_def bnd_def)
  from authorizer_handler_denies [OF this] p
  have d: "bnd (getitem event ''methodArn'') (\<lambda>method_arn. generate_policy ''Deny'' method_arn None)
             = Inr policy" by simp
  from deny_policy_reads [OF d]
  show "policy_effect policy = Inr (JStr ''Deny'')" "\<not> has_context policy" .
next
  fix arn
  assume h: "dict_get event ''authorizationToken'' (JStr []) = Inr (JStr auth_token)
      \<and> prefix ''Bearer '' auth_token
      \<and> verify_token lib (remove_all ''Bearer '' auth_token) = Inl e"
    and arn: "getitem event ''methodArn'' = Inr arn"
  from h have "authorizer_try lib event = Inl e"
    by (simp add: authorizer_try_def bnd_def)
  from authorizer_handler_denies [OF this] arn
  show "authorizer_handler lib event = generate_policy ''Deny'' arn None"
    by (simp add: bnd_def)
  then show "\<exists>policy. authorizer_handler lib event = Inr policy"
    by (simp add: deny_policy)
next
  fix policy
  assume p: "authorizer_handler lib event = Inr policy"
  have cases: "(authorizer_try lib event = Inr policy
                 \<and> policy_effect policy = Inr (JStr ''Allow'') \<and> has_context policy
                 \<and> (\<exists>token claims.
                      dict_get event ''authorizationToken'' (JStr []) = Inr (JStr token)
                      \<and> prefix ''Bearer '' token
                      \<and> verify_token lib (remove_all ''Bearer '' token) = Inr claims))
               \<or> (policy_effect policy = Inr (JStr ''Deny'') \<and> \<not> has_context policy)"
  proof (cases "authorizer_try lib event")
    case (Inl e')
    from authorizer_handler_denies [OF Inl] p
    have "bnd (getitem event ''methodArn'') (\<lambda>method_arn. generate_policy ''Deny'' method_arn None)
            = Inr policy" by simp
    from deny_policy_reads [OF this] show ?thesis by simp
  next
    case (Inr q)
    with p have q: "q = policy" by (simp add: authorizer_handler_def)
    from authorizer_try_Inr [OF Inr [unfolded q]] Inr q show ?thesis by auto
  qed
  from cases
  show "policy_effect policy = Inr (JStr ''Allow'') \<or> policy_effect policy = Inr (JStr ''Deny'')"
    by auto
  from cases
  show "has_context policy \<longleftrightarrow> policy_effect policy = Inr (JStr ''Allow'')"
    by auto
  assume "policy_effect policy = Inr (JStr ''Allow'')"
  with cases
  show "\<exists>token claims.
          dict_get event ''authorizationToken'' (JStr []) = Inr (JStr token)
          \<and> prefix ''Bearer '' token
          \<and> verify_token lib (remove_all ''Bearer '' token) = Inr claims"
    by auto
qed

lemmas authorizer_defs = authorizer_handler_def authorizer_try_def verify_token_def
  get_public_key_def extract_tenant_context_def generate_policy_def policy_effect_def
  has_context_def bnd_def demo_lib_def authorizer_event_def

theorem authorizer_fails_closed_witness:
  "verify_token (demo_lib (Inl ExpiredSignatureError)) ''abc.def.ghi''
     = Inl (ValueError ''Token has expired'')
   \<and> authorizer_handler (demo_lib (Inl ExpiredSignatureError))
         (authorizer_event ''Bearer abc.def.ghi'')
       = Inr (JObj [(''principalId'', JStr ''unknown''),
                    (''policyDocument'',
                     JObj [(''Version'', JStr ''2012-10-17''),
                           (''Statement'',
                            JArr [JObj [(''Action'', JStr ''execute-api:Invoke''),
                                        (''Effect'', JStr ''Deny''),
                                        (''Resource'',
                                         JStr ''arn:aws:execute-api:eu-west-1:123:api/prod/GET/tasks'')]])])])
   \<and> (\<exists>policy.
         authorizer_handler
           (demo_lib (Inr (JObj [(''sub'', JStr ''alice''), (''custom:tenant_id'', JStr ''acme'')])))
           (authorizer_event ''Bearer abc.def.ghi'') = Inr policy
         \<and> policy_effect policy = Inr (JStr ''Allow'')
         \<and> has_context policy
         \<and> getitem policy ''context''
             = Inr (JObj [(''tenant_id'', JStr ''acme''), (''user_id'', JStr ''alice''),
                          (''email'', JStr []), (''role'', JStr ''MEMBER'')]))"
  using authorizer_fails_closed [of "authorizer_event ''Bearer abc.def.ghi''"
      "''Bearer abc.def.ghi''" "demo_lib (Inl ExpiredSignatureError)"
      "ValueError ''Token has expired''"]
    authorizer_fails_closed [of "authorizer_event ''Bearer abc.def.ghi''"
      "''Bearer abc.def.ghi''"
      "demo_lib (Inr (JObj [(''sub'', JStr ''alice''), (''custom:tenant_id'', JStr ''acme'')]))"
      "ValueError ''Token has expired''"]
  by (simp add: authorizer_defs)

section \<open>The event fan-out handler\<close>

lemmas fanout_defs = task_created_handler_def await_process_analytics_def
  await_send_notifications_def await_create_audit_log_def audit_item_def caught_def str_exn_def
  bnd_def put_item_def put_object_def utcnow_def py_format_def stored_def
  task_created_record_def malformed_record_def

text \<open>
  C8. The claim: a thrown exception while extracting or processing one record
  aborts only that record, and every other record of the batch is still
  processed and appears in the returned summary. The loop runs inside one
  \<^verbatim>\<open>try\<close>: at the first input below a record whose detail is null raises at
  \<^verbatim>\<open>detail.get\<close>, the handler answers 500 with no record processed, and the
  world is as before, although the second record alone is processed (second
  input). At the third input the record before the malformed one is
  processed, the one after it is not, and the answer has no summary.
\<close>

theorem task_created_handler_batch_aborts:
  "task_created_handler demo_runtime
       (JObj [(''Records'', JArr [malformed_record, task_created_record ''task-2''])]) demo_world
     = (JObj [(''statusCode'', JNum 500),
              (''error'', JStr (message demo_runtime AttributeError)),
              (''processed_events'', JNum 0)],
        demo_world)
   \<and> (case task_created_handler demo_runtime
             (JObj [(''Records'', JArr [task_created_record ''task-2''])]) demo_world of
         (result, w') \<Rightarrow>
           getitem result ''statusCode'' = Inr (JNum 200)
           \<and> getitem result ''processed_events'' = Inr (JNum 1)
           \<and> stored w' (''TENANT#acme'', ''AUDIT#2024-05-01T10:00:00Z#task-2'') ''resource_id''
               = Some (JStr ''task-2''))
   \<and> (case task_created_handler demo_runtime
             (JObj [(''Records'', JArr [task_created_record ''task-2'', malformed_record,
                                        task_created_record ''task-3''])]) demo_world of
         (result, w') \<Rightarrow>
           getitem result ''statusCode'' = Inr (JNum 500)
           \<and> getitem result ''processed_events'' = Inr (JNum 1)
           \<and> getitem result ''results'' = Inl (KeyError ''results'')
           \<and> stored w' (''TENANT#acme'', ''AUDIT#2024-05-01T10:00:00Z#task-2'') ''resource_id''
               = Some (JStr ''task-2'')
           \<and> table w' (''TENANT#acme'', ''AUDIT#2024-05-01T10:00:00Z#task-3'') = None)"
  by (simp add: fanout_defs prog_defs demo_defs Let_def)

end
